theory Spec2Isabelle
  imports Main "HOL-Library.Word"
begin

section \<open>Callables\<close>

text \<open>
  The template parameter \<open>F\<close> of \<open>SFModel\<close> and of the converting constructor of
  \<open>SmallFun\<close> is any class with a call operator. A value of such a class is modelled by
  its data members (\<open>captures\<close>) together with what the class provides:
  \<^item> \<open>call_op\<close>: the call \<open>f(xs...)\<close> on an \<open>F\<close> that is not const; it returns the result
    and the data members as the call leaves them;
  \<^item> \<open>call_op_const\<close>: the call \<open>f(xs...)\<close> on a \<open>const F\<close>;
  \<^item> \<open>sizeof_SFModel\<close>: the number \<open>sizeof(SFModel<F, ReturnType, Xs...>)\<close>, which the
    source only ever compares with \<open>size\<close> and converts to \<open>bool\<close>.
  Copy-constructing an \<open>F\<close> yields an equal value.
\<close>

record ('s, 'x, 'r) callable =
  captures :: 's
  call_op :: "'s \<Rightarrow> 'x \<Rightarrow> 'r \<times> 's"
  call_op_const :: "'s \<Rightarrow> 'x \<Rightarrow> 'r"
  sizeof_SFModel :: nat

definition F_invoke :: "('s, 'x, 'r) callable \<Rightarrow> 'x \<Rightarrow> 'r \<times> ('s, 'x, 'r) callable" where
  "F_invoke F xs = (case call_op F (captures F) xs of (r, s') \<Rightarrow> (r, F\<lparr>captures := s'\<rparr>))"

definition F_invoke_const :: "('s, 'x, 'r) callable \<Rightarrow> 'x \<Rightarrow> 'r" where
  "F_invoke_const F xs = call_op_const F (captures F) xs"

text \<open>
  A class whose only call operator is const-qualified (every closure that is not
  \<open>mutable\<close>, and \<open>Functor\<close> below): the call on an \<open>F\<close> that is not const resolves to it.
\<close>

definition const_callable :: "nat \<Rightarrow> ('s \<Rightarrow> 'x \<Rightarrow> 'r) \<Rightarrow> 's \<Rightarrow> ('s, 'x, 'r) callable" where
  "const_callable sz g s =
     \<lparr>captures = s, call_op = (\<lambda>s xs. (g s xs, s)), call_op_const = g, sizeof_SFModel = sz\<rparr>"

subsection \<open>\<open>Functor\<close> (apps/main.cpp)\<close>

text \<open>
  \<^verbatim>\<open>struct Functor { int i; unsigned N;
    constexpr int operator()(int j)const { return i*j+N; } };\<close>
  \<open>i*j\<close> is a product of two \<open>int\<close>; it is converted to \<open>unsigned\<close> and added to \<open>N\<close>
  modulo \<open>2^32\<close>. The closures \<open>[i, N] (int j) { return i*j+N; }\<close> of the benchmarks
  compute the same expression. Where the signed product overflows the source has no
  defined value; the model wraps there.
\<close>

record Functor =
  Functor_i :: "32 word"
  Functor_N :: "32 word"

definition Functor_call :: "Functor \<Rightarrow> 32 word \<Rightarrow> 32 word" where
  "Functor_call F j = word_of_int (sint (Functor_i F) * sint j) + Functor_N F"

section \<open>The erased interface and its adapter\<close>

text \<open>
  \<open>SFModel<F, ReturnType, Xs...>\<close> has the one data member \<open>F f\<close>; its constructor
  \<open>SFModel(F const& f) : f(f)\<close> copy-constructs it. The virtual functions of
  \<open>SFConcept\<close> are the functions below, which dispatch on the held callable.
  (\<open>Concept\<close> and \<open>Model\<close> of smallfunction/apps/main.cpp are the same two classes.)
\<close>

datatype ('s, 'x, 'r) SFModel = SFModel (model_f: "('s, 'x, 'r) callable")

definition SFModel_call_const :: "('s, 'x, 'r) SFModel \<Rightarrow> 'x \<Rightarrow> 'r" where
  "SFModel_call_const m xs = F_invoke_const (model_f m) xs"

definition SFModel_call :: "('s, 'x, 'r) SFModel \<Rightarrow> 'x \<Rightarrow> 'r \<times> ('s, 'x, 'r) SFModel" where
  "SFModel_call m xs = (case F_invoke (model_f m) xs of (r, F') \<Rightarrow> (r, SFModel F'))"

section \<open>Containers in a store\<close>

text \<open>
  A \<open>SmallFun<ReturnType(Xs...), size>\<close> object has the array \<open>char memory[size]\<close> and the
  flag \<open>bool allocated\<close>; so has a \<open>SmallFunction<ReturnType(Xs...), size>\<close> of
  smallfunction/apps/main.cpp, whose members have the same text except where it is said. The array is modelled by the adapter object that lives in it:
  \<open>None\<close> when the bytes hold no live \<open>SFModel\<close> (never constructed, or destroyed).
  The template parameter \<open>size\<close> is the field \<open>size_SF\<close>.

  Copy-assignment receives its source by reference, so the containers live in a store:
  a reference is an index into \<open>objects\<close>, and an entry is \<open>None\<close> once the container's
  lifetime has ended. The store also counts how often an \<open>F\<close> held by an adapter is
  constructed and destroyed, as a callable type that counts its instances would.
\<close>

datatype error =
    No_matching_overload  \<comment> \<open>an \<open>enable_if\<close> condition is false: the program does not build\<close>
  | Inaccessible_member   \<comment> \<open>a private member of another class is named: the program does not build\<close>
  | Dangling_reference    \<comment> \<open>the caller names a container that is not alive\<close>
  | Undefined_behaviour   \<comment> \<open>use of an adapter where none lives, or a write past \<open>memory\<close>\<close>

record ('s, 'x, 'r) SmallFun =
  size_SF :: nat
  memory :: "('s, 'x, 'r) SFModel option"
  allocated :: bool

record ('s, 'x, 'r) world =
  objects :: "('s, 'x, 'r) SmallFun option list"
  constructions :: nat
  destructions :: nat

type_synonym ref = nat

definition empty_world :: "('s, 'x, 'r) world" where
  "empty_world = \<lparr>objects = [], constructions = 0, destructions = 0\<rparr>"

definition obj_at :: "('s, 'x, 'r) world \<Rightarrow> ref \<Rightarrow> ('s, 'x, 'r) SmallFun option" where
  "obj_at w p = (if p < length (objects w) then objects w ! p else None)"

definition put_obj :: "ref \<Rightarrow> ('s, 'x, 'r) SmallFun \<Rightarrow> ('s, 'x, 'r) world \<Rightarrow> ('s, 'x, 'r) world" where
  "put_obj p c w = w\<lparr>objects := (objects w)[p := Some c]\<rparr>"

definition new_obj :: "('s, 'x, 'r) SmallFun \<Rightarrow> ('s, 'x, 'r) world \<Rightarrow> ref \<times> ('s, 'x, 'r) world" where
  "new_obj c w = (length (objects w), w\<lparr>objects := objects w @ [Some c]\<rparr>)"

definition and_then :: "error + 'a \<Rightarrow> ('a \<Rightarrow> error + 'b) \<Rightarrow> error + 'b" where
  "and_then r k = (case r of Inl e \<Rightarrow> Inl e | Inr a \<Rightarrow> k a)"

subsection \<open>\<open>SFModel::copy\<close> and \<open>SmallFun::copy\<close>\<close>

text \<open>
  \<^verbatim>\<open>virtual void copy(void* memory)const { new (memory) SFModel<F, ReturnType, Xs...>(f); }\<close>
  The pointer is the \<open>memory\<close> of the container \<open>data\<close>. The placement-new constructs an
  adapter there, whatever the bytes held before. The source does not check that the
  adapter fits the array: where it does not, the write runs past the array.
\<close>

definition SFModel_copy ::
  "('s, 'x, 'r) SFModel \<Rightarrow> ref \<Rightarrow> ('s, 'x, 'r) world \<Rightarrow> error + ('s, 'x, 'r) world" where
  "SFModel_copy m data w =
     (case obj_at w data of
        None \<Rightarrow> Inl Dangling_reference
      | Some d \<Rightarrow>
          if sizeof_SFModel (model_f m) \<le> size_SF d
          then Inr ((put_obj data (d\<lparr>memory := Some (SFModel (model_f m))\<rparr>) w)
                      \<lparr>constructions := constructions w + 1\<rparr>)
          else Inl Undefined_behaviour)"

text \<open>
  \<^verbatim>\<open>void copy(void* data)const { if (allocated) { ((concept*)memory)->copy(data); } }\<close>
\<close>

definition SmallFun_copy ::
  "ref \<Rightarrow> ref \<Rightarrow> ('s, 'x, 'r) world \<Rightarrow> error + ('s, 'x, 'r) world" where
  "SmallFun_copy this data w =
     (case obj_at w this of
        None \<Rightarrow> Inl Dangling_reference
      | Some c \<Rightarrow>
          if allocated c
          then (case memory c of
                  None \<Rightarrow> Inl Undefined_behaviour
                | Some m \<Rightarrow> SFModel_copy m data w)
          else Inr w)"

subsection \<open>Constructors\<close>

text \<open>\<^verbatim>\<open>SmallFun(){}\<close> with the member initialiser \<open>bool allocated = 0\<close>.\<close>

definition SmallFun_default ::
  "nat \<Rightarrow> ('s, 'x, 'r) world \<Rightarrow> ref \<times> ('s, 'x, 'r) world" where
  "SmallFun_default n w = new_obj \<lparr>size_SF = n, memory = None, allocated = False\<rparr> w"

text \<open>
  \<^verbatim>\<open>template<class F, std::enable_if_t<(sizeof(SFModel<F, ReturnType, Xs...>)<=size), bool> = 0 >
  SmallFun(F const&f) : allocated(sizeof(SFModel<F, ReturnType, Xs...>)) {
    new (memory) SFModel<F, ReturnType, Xs...>(f); }\<close>
  The flag is a \<open>bool\<close> initialised from the size: true when the size is not zero.
\<close>

definition SmallFun_from ::
  "nat \<Rightarrow> ('s, 'x, 'r) callable \<Rightarrow> ('s, 'x, 'r) world \<Rightarrow> error + ref \<times> ('s, 'x, 'r) world" where
  "SmallFun_from n F w =
     (if sizeof_SFModel F \<le> n
      then Inr (new_obj \<lparr>size_SF = n, memory = Some (SFModel F),
                         allocated = (sizeof_SFModel F \<noteq> 0)\<rparr>
                  (w\<lparr>constructions := constructions w + 1\<rparr>))
      else Inl No_matching_overload)"

text \<open>
  \<^verbatim>\<open>template<unsigned s, std::enable_if_t<(s <= size), bool> = 0>
  SmallFun(SmallFun<ReturnType(Xs...), s> const& sf) : allocated(sf.allocated) {
    sf.copy(memory); }\<close>
  \<open>copy_ctor_template\<close> is what this text does where it is instantiated: the condition of
  the \<open>enable_if\<close>, the initialiser and the body.
\<close>

definition copy_ctor_template ::
  "nat \<Rightarrow> ref \<Rightarrow> ('s, 'x, 'r) world \<Rightarrow> error + ref \<times> ('s, 'x, 'r) world" where
  "copy_ctor_template n sf w =
     (case obj_at w sf of
        None \<Rightarrow> Inl Dangling_reference
      | Some src \<Rightarrow>
          if size_SF src \<le> n
          then (case new_obj \<lparr>size_SF = n, memory = None, allocated = allocated src\<rparr> w of
                  (this, w1) \<Rightarrow> and_then (SmallFun_copy sf this w1) (\<lambda>w2. Inr (this, w2)))
          else Inl No_matching_overload)"

text \<open>
  Whether the text can be instantiated differs between the two files. In smallfun.hpp
  \<open>SmallFun\<close> is a class, and \<open>memory\<close> and \<open>allocated\<close> are private. A
  \<open>SmallFun<ReturnType(Xs...), s>\<close> with \<open>s\<close> other than \<open>size\<close> is another class, so for
  \<open>s < size\<close> the constructor is selected (the condition holds) and its initialiser
  \<open>allocated(sf.allocated)\<close> names a private member of another class. In
  smallfunction/apps/main.cpp \<open>SmallFunction\<close> is a struct, and the same text builds.
\<close>

definition SmallFun_copy_ctor ::
  "nat \<Rightarrow> ref \<Rightarrow> ('s, 'x, 'r) world \<Rightarrow> error + ref \<times> ('s, 'x, 'r) world" where
  "SmallFun_copy_ctor n sf w =
     (case obj_at w sf of
        None \<Rightarrow> Inl Dangling_reference
      | Some src \<Rightarrow>
          if size_SF src < n then Inl Inaccessible_member
          else copy_ctor_template n sf w)"

definition SmallFunction_copy_ctor ::
  "nat \<Rightarrow> ref \<Rightarrow> ('s, 'x, 'r) world \<Rightarrow> error + ref \<times> ('s, 'x, 'r) world" where
  "SmallFunction_copy_ctor n sf w = copy_ctor_template n sf w"

subsection \<open>\<open>clean\<close>, the destructor and copy-assignment\<close>

text \<open>
  \<^verbatim>\<open>void clean() { if (allocated) { ((concept*)memory)->~concept(); allocated = 0; } }\<close>
  The virtual destructor destroys the held \<open>F\<close>; afterwards no adapter lives in \<open>memory\<close>.
\<close>

definition clean :: "ref \<Rightarrow> ('s, 'x, 'r) world \<Rightarrow> error + ('s, 'x, 'r) world" where
  "clean this w =
     (case obj_at w this of
        None \<Rightarrow> Inl Dangling_reference
      | Some c \<Rightarrow>
          if allocated c
          then (case memory c of
                  None \<Rightarrow> Inl Undefined_behaviour
                | Some m \<Rightarrow>
                    Inr ((put_obj this (c\<lparr>memory := None, allocated := False\<rparr>) w)
                           \<lparr>destructions := destructions w + 1\<rparr>))
          else Inr w)"

text \<open>
  \<^verbatim>\<open>~SmallFun() { if (allocated) { ((concept*)memory)->~concept(); } }\<close>
  After the destructor the container is no longer alive.
\<close>

definition SmallFun_dtor :: "ref \<Rightarrow> ('s, 'x, 'r) world \<Rightarrow> error + ('s, 'x, 'r) world" where
  "SmallFun_dtor this w =
     (case obj_at w this of
        None \<Rightarrow> Inl Dangling_reference
      | Some c \<Rightarrow>
          if allocated c
          then (case memory c of
                  None \<Rightarrow> Inl Undefined_behaviour
                | Some m \<Rightarrow>
                    Inr (w\<lparr>objects := (objects w)[this := None],
                           destructions := destructions w + 1\<rparr>))
          else Inr (w\<lparr>objects := (objects w)[this := None]\<rparr>))"

text \<open>
  \<^verbatim>\<open>template<unsigned s, std::enable_if_t<(s <= size), bool> = 0>
  SmallFun& operator=(SmallFun<ReturnType(Xs...), s> const& sf) {
    clean(); allocated = sf.allocated; sf.copy(memory); return *this; }\<close>
  The three statements run in this order on the store, so \<open>sf.allocated\<close> and \<open>sf.copy\<close>
  read the source as \<open>clean()\<close> has left it. \<open>assign_template\<close> is the condition of the
  \<open>enable_if\<close> and the three statements; the reference that the operator returns is not
  part of the model.
\<close>

definition set_allocated :: "ref \<Rightarrow> bool \<Rightarrow> ('s, 'x, 'r) world \<Rightarrow> error + ('s, 'x, 'r) world" where
  "set_allocated this b w =
     (case obj_at w this of
        None \<Rightarrow> Inl Dangling_reference
      | Some c \<Rightarrow> Inr (put_obj this (c\<lparr>allocated := b\<rparr>) w))"

definition get_allocated :: "ref \<Rightarrow> ('s, 'x, 'r) world \<Rightarrow> error + bool" where
  "get_allocated sf w =
     (case obj_at w sf of None \<Rightarrow> Inl Dangling_reference | Some c \<Rightarrow> Inr (allocated c))"

definition assign_template ::
  "ref \<Rightarrow> ref \<Rightarrow> ('s, 'x, 'r) world \<Rightarrow> error + ('s, 'x, 'r) world" where
  "assign_template this sf w =
     (case (obj_at w this, obj_at w sf) of
        (Some dst, Some src) \<Rightarrow>
          if size_SF src \<le> size_SF dst
          then and_then (clean this w) (\<lambda>w1.
               and_then (get_allocated sf w1) (\<lambda>b.
               and_then (set_allocated this b w1) (\<lambda>w2.
               SmallFun_copy sf this w2)))
          else Inl No_matching_overload
      | _ \<Rightarrow> Inl Dangling_reference)"

text \<open>
  In smallfun.hpp the second statement reads \<open>sf.allocated\<close>, private to another class
  when \<open>s < size\<close>, as in the constructor. In smallfunction/apps/main.cpp the operator is
  \<^verbatim>\<open>SmallFunction& operator=(SmallFunction<ReturnType(Xs...), s> const& sf) {
    clean(); allocated = sf.allocated; sf.copy(memory); }\<close>
  with no return statement: once the three statements have run, control reaches the
  end of a function that returns a reference, and the call has no defined behaviour.
\<close>

definition SmallFun_assign ::
  "ref \<Rightarrow> ref \<Rightarrow> ('s, 'x, 'r) world \<Rightarrow> error + ('s, 'x, 'r) world" where
  "SmallFun_assign this sf w =
     (case (obj_at w this, obj_at w sf) of
        (Some dst, Some src) \<Rightarrow>
          if size_SF src < size_SF dst then Inl Inaccessible_member
          else assign_template this sf w
      | _ \<Rightarrow> Inl Dangling_reference)"

definition SmallFunction_assign ::
  "ref \<Rightarrow> ref \<Rightarrow> ('s, 'x, 'r) world \<Rightarrow> error + ('s, 'x, 'r) world" where
  "SmallFunction_assign this sf w =
     and_then (assign_template this sf w) (\<lambda>w'. Inl Undefined_behaviour)"

subsection \<open>The copy operations the class does not declare\<close>

text \<open>
  The constructor and the assignment operator above are templates over the capacity
  \<open>s\<close> of their argument. A template is never the copy constructor or the copy
  assignment operator of its class, and the class declares neither, so both exist
  implicitly: \<open>SmallFun(SmallFun const&)\<close> and \<open>SmallFun& operator=(SmallFun const&)\<close>
  copy \<open>memory\<close> and \<open>allocated\<close> member by member. No constructor or destructor of an
  adapter runs: the bytes of the source array, and with them the image of the adapter
  it holds, are copied over whatever the destination held.
\<close>

definition SmallFun_implicit_copy_ctor ::
  "nat \<Rightarrow> ref \<Rightarrow> ('s, 'x, 'r) world \<Rightarrow> error + ref \<times> ('s, 'x, 'r) world" where
  "SmallFun_implicit_copy_ctor n sf w =
     (case obj_at w sf of
        None \<Rightarrow> Inl Dangling_reference
      | Some src \<Rightarrow>
          Inr (new_obj \<lparr>size_SF = n, memory = memory src, allocated = allocated src\<rparr> w))"

definition SmallFun_implicit_assign ::
  "ref \<Rightarrow> ref \<Rightarrow> ('s, 'x, 'r) world \<Rightarrow> error + ('s, 'x, 'r) world" where
  "SmallFun_implicit_assign this sf w =
     (case (obj_at w this, obj_at w sf) of
        (Some dst, Some src) \<Rightarrow>
          Inr (put_obj this (dst\<lparr>memory := memory src, allocated := allocated src\<rparr>) w)
      | _ \<Rightarrow> Inl Dangling_reference)"

text \<open>
  Which of them a copy of a \<open>SmallFun\<close> selects. For a source of the container's own
  type (\<open>s = size\<close>) the implicit operation and the template take the same argument and
  the one that is not a template is preferred; for \<open>s < size\<close> the template is selected,
  and for \<open>s > size\<close> nothing is. An assignment from a callable, as
  \<^verbatim>\<open>fs[i] = [i, N] (int j) { return i*j+N; };\<close>
  in the benchmarks, has no template to select (\<open>s\<close> cannot be deduced from a closure):
  it constructs a temporary container of the same capacity from the callable, assigns
  it with the implicit operator, and destroys it.
\<close>

definition copy_construct ::
  "nat \<Rightarrow> ref \<Rightarrow> ('s, 'x, 'r) world \<Rightarrow> error + ref \<times> ('s, 'x, 'r) world" where
  "copy_construct n sf w =
     (case obj_at w sf of
        None \<Rightarrow> Inl Dangling_reference
      | Some src \<Rightarrow>
          if size_SF src = n then SmallFun_implicit_copy_ctor n sf w
          else SmallFun_copy_ctor n sf w)"

definition copy_assign ::
  "ref \<Rightarrow> ref \<Rightarrow> ('s, 'x, 'r) world \<Rightarrow> error + ('s, 'x, 'r) world" where
  "copy_assign this sf w =
     (case (obj_at w this, obj_at w sf) of
        (Some dst, Some src) \<Rightarrow>
          if size_SF src = size_SF dst then SmallFun_implicit_assign this sf w
          else SmallFun_assign this sf w
      | _ \<Rightarrow> Inl Dangling_reference)"

subsection \<open>The call operators\<close>

text \<open>
  \<^verbatim>\<open>template<class...Ys> ReturnType operator()(Ys&&...ys) {
    return (*(concept*)memory)(std::forward<Ys>(ys)...); }
  template<class...Ys> ReturnType operator()(Ys&&...ys)const {
    return (*(concept*)memory)(std::forward<Ys>(ys)...); }\<close>
  Neither reads \<open>allocated\<close>. In both, the cast \<open>(concept*)memory\<close> yields a pointer to
  an \<open>SFConcept\<close> that is not const (in the const-qualified operator the cast removes
  the const of the member), so both select \<open>SFConcept::operator()(Xs...)\<close>, which
  \<open>SFModel\<close> overrides by \<open>SFModel_call\<close>.
\<close>

definition SmallFun_call ::
  "ref \<Rightarrow> 'x \<Rightarrow> ('s, 'x, 'r) world \<Rightarrow> error + 'r \<times> ('s, 'x, 'r) world" where
  "SmallFun_call this ys w =
     (case obj_at w this of
        None \<Rightarrow> Inl Dangling_reference
      | Some c \<Rightarrow>
          (case memory c of
             None \<Rightarrow> Inl Undefined_behaviour
           | Some m \<Rightarrow>
               (case SFModel_call m ys of
                  (r, m') \<Rightarrow> Inr (r, put_obj this (c\<lparr>memory := Some m'\<rparr>) w))))"

definition SmallFun_call_const ::
  "ref \<Rightarrow> 'x \<Rightarrow> ('s, 'x, 'r) world \<Rightarrow> error + 'r \<times> ('s, 'x, 'r) world" where
  "SmallFun_call_const this ys w =
     (case obj_at w this of
        None \<Rightarrow> Inl Dangling_reference
      | Some c \<Rightarrow>
          (case memory c of
             None \<Rightarrow> Inl Undefined_behaviour
           | Some m \<Rightarrow>
               (case SFModel_call m ys of
                  (r, m') \<Rightarrow> Inr (r, put_obj this (c\<lparr>memory := Some m'\<rparr>) w))))"

definition returned :: "error + 'r \<times> 'w \<Rightarrow> error + 'r" where
  "returned res = (case res of Inl e \<Rightarrow> Inl e | Inr (r, w) \<Rightarrow> Inr r)"

section \<open>Well-formed stores and sequences of operations\<close>

text \<open>
  The data invariant of a container: the flag is set exactly when an adapter lives in
  \<open>memory\<close>, and that adapter is no larger than the array.
\<close>

definition wf_SmallFun :: "('s, 'x, 'r) SmallFun \<Rightarrow> bool" where
  "wf_SmallFun c =
     (case memory c of
        None \<Rightarrow> \<not> allocated c
      | Some m \<Rightarrow> allocated c \<and> sizeof_SFModel (model_f m) \<le> size_SF c)"

definition wf_entry :: "('s, 'x, 'r) SmallFun option \<Rightarrow> bool" where
  "wf_entry e = (case e of None \<Rightarrow> True | Some c \<Rightarrow> wf_SmallFun c)"

definition wf_world :: "('s, 'x, 'r) world \<Rightarrow> bool" where
  "wf_world w = list_all wf_entry (objects w)"

text \<open>The number of adapters (and so of held callables) that are alive in the store.\<close>

definition holds :: "('s, 'x, 'r) SmallFun option \<Rightarrow> nat" where
  "holds e = (case e of None \<Rightarrow> 0 | Some c \<Rightarrow> (case memory c of None \<Rightarrow> 0 | Some m \<Rightarrow> 1))"

definition live_adapters :: "('s, 'x, 'r) world \<Rightarrow> nat" where
  "live_adapters w = sum_list (map holds (objects w))"

text \<open>Every container of the store has reached the end of its lifetime.\<close>

definition all_destroyed :: "('s, 'x, 'r) world \<Rightarrow> bool" where
  "all_destroyed w = list_all (\<lambda>e. case e of None \<Rightarrow> True | Some c \<Rightarrow> False) (objects w)"

text \<open>
  The invariant of the store: every container is well formed, and every held callable
  that was constructed and not yet destroyed is the one of a live adapter.
\<close>

definition balanced :: "('s, 'x, 'r) world \<Rightarrow> bool" where
  "balanced w = (wf_world w \<and> constructions w = destructions w + live_adapters w)"

text \<open>
  A program over containers is a sequence of the operations of the class: a declaration
  creates a container (its reference is the next index of the store), the others act on
  containers that exist.
\<close>

datatype ('s, 'x, 'r) operation =
    Declare nat                                  \<comment> \<open>\<open>SmallFun<Sig, n> c;\<close>\<close>
  | Declare_from nat "('s, 'x, 'r) callable"     \<comment> \<open>\<open>SmallFun<Sig, n> c(f);\<close>\<close>
  | Declare_copy nat ref                         \<comment> \<open>\<open>SmallFun<Sig, n> c(sf);\<close>\<close>
  | Assign ref ref                               \<comment> \<open>\<open>c = sf;\<close>\<close>
  | Clean ref                                    \<comment> \<open>\<open>c.clean();\<close>\<close>
  | Destroy ref                                  \<comment> \<open>the end of the lifetime of \<open>c\<close>\<close>

fun step :: "('s, 'x, 'r) operation \<Rightarrow> ('s, 'x, 'r) world \<Rightarrow> error + ('s, 'x, 'r) world" where
  "step (Declare n) w = Inr (snd (SmallFun_default n w))"
| "step (Declare_from n F) w = and_then (SmallFun_from n F w) (\<lambda>(c, w'). Inr w')"
| "step (Declare_copy n sf) w = and_then (copy_construct n sf w) (\<lambda>(c, w'). Inr w')"
| "step (Assign this sf) w = copy_assign this sf w"
| "step (Clean this) w = clean this w"
| "step (Destroy this) w = SmallFun_dtor this w"

fun run :: "('s, 'x, 'r) operation list \<Rightarrow> ('s, 'x, 'r) world \<Rightarrow> error + ('s, 'x, 'r) world" where
  "run [] w = Inr w"
| "run (a # as) w = and_then (step a w) (run as)"

text \<open>
  The same programs with every copy performed by the text of the member templates,
  whatever the capacities: what the class would do if the templates were its copy
  operations and could be instantiated at every capacity.
\<close>

fun step_templates ::
  "('s, 'x, 'r) operation \<Rightarrow> ('s, 'x, 'r) world \<Rightarrow> error + ('s, 'x, 'r) world" where
  "step_templates (Declare n) w = Inr (snd (SmallFun_default n w))"
| "step_templates (Declare_from n F) w = and_then (SmallFun_from n F w) (\<lambda>(c, w'). Inr w')"
| "step_templates (Declare_copy n sf) w =
     and_then (copy_ctor_template n sf w) (\<lambda>(c, w'). Inr w')"
| "step_templates (Assign this sf) w = assign_template this sf w"
| "step_templates (Clean this) w = clean this w"
| "step_templates (Destroy this) w = SmallFun_dtor this w"

fun run_templates ::
  "('s, 'x, 'r) operation list \<Rightarrow> ('s, 'x, 'r) world \<Rightarrow> error + ('s, 'x, 'r) world" where
  "run_templates [] w = Inr w"
| "run_templates (a # as) w = and_then (step_templates a w) (run_templates as)"

fun positive_sizes :: "('s, 'x, 'r) operation list \<Rightarrow> bool" where
  "positive_sizes [] = True"
| "positive_sizes (Declare_from n F # as) = (0 < sizeof_SFModel F \<and> positive_sizes as)"
| "positive_sizes (a # as) = positive_sizes as"

text \<open>Two containers give the same results at \<open>xs\<close>, the ones of the callable \<open>F\<close>.\<close>

definition same_results ::
  "ref \<Rightarrow> ref \<Rightarrow> 'x \<Rightarrow> ('s, 'x, 'r) callable \<Rightarrow> ('s, 'x, 'r) world \<Rightarrow> bool" where
  "same_results b a xs F w =
     (returned (SmallFun_call b xs w) = returned (SmallFun_call a xs w) \<and>
      returned (SmallFun_call_const b xs w) = returned (SmallFun_call_const a xs w) \<and>
      returned (SmallFun_call b xs w) = Inr (fst (F_invoke F xs)) \<and>
      returned (SmallFun_call_const b xs w) = Inr (fst (F_invoke F xs)))"

subsection \<open>Example closures and an example store\<close>

text \<open>
  The closures of the benchmarks for \<open>i = 3, N = 100\<close> and for \<open>i = 7, N = 1\<close>, with an
  adapter of 16 bytes, and a store of four containers: one of capacity 64 that holds
  the first closure, and three of capacity 128: an empty one, one that holds the second
  closure and one that holds the first.
\<close>

definition closure_3_100 :: "(Functor, 32 word, 32 word) callable" where
  "closure_3_100 = const_callable 16 Functor_call \<lparr>Functor_i = 3, Functor_N = 100\<rparr>"

definition closure_7_1 :: "(Functor, 32 word, 32 word) callable" where
  "closure_7_1 = const_callable 16 Functor_call \<lparr>Functor_i = 7, Functor_N = 1\<rparr>"

definition example_world :: "(Functor, 32 word, 32 word) world" where
  "example_world =
     \<lparr>objects =
        [Some \<lparr>size_SF = 64, memory = Some (SFModel closure_3_100), allocated = True\<rparr>,
         Some \<lparr>size_SF = 128, memory = None, allocated = False\<rparr>,
         Some \<lparr>size_SF = 128, memory = Some (SFModel closure_7_1), allocated = True\<rparr>,
         Some \<lparr>size_SF = 128, memory = Some (SFModel closure_3_100), allocated = True\<rparr>],
      constructions = 3, destructions = 0\<rparr>"

text \<open>The source of a copy is as it was, and so are the results of calling it.\<close>

definition source_kept ::
  "ref \<Rightarrow> 'x \<Rightarrow> ('s, 'x, 'r) world \<Rightarrow> ('s, 'x, 'r) world \<Rightarrow> bool" where
  "source_kept sf xs w w' =
     (obj_at w' sf = obj_at w sf \<and>
      returned (SmallFun_call sf xs w') = returned (SmallFun_call sf xs w) \<and>
      returned (SmallFun_call_const sf xs w') = returned (SmallFun_call_const sf xs w))"

subsection \<open>Where the storage slot lies\<close>

text \<open>
  The members of the class are \<open>char memory[size]\<close> and \<open>bool allocated\<close>, declared in
  this order with no alignment specifier, and there is no virtual function and no base
  class: \<open>memory\<close> is at offset 0, and both members have alignment 1 and the flag one
  byte, so the class has alignment 1 and no padding. In an array of containers of
  capacity \<open>n\<close> that starts at the address \<open>base\<close>, as the \<open>std::vector<sf> fs(N)\<close> of the
  benchmarks holds one, the slot of element \<open>i\<close> is at \<open>memory_address base n i\<close>. The
  placement-new of the constructors constructs the adapter at this address; an adapter
  of alignment \<open>al\<close> needs an address that is a multiple of \<open>al\<close>.
\<close>

definition alignof_SmallFun :: nat where
  "alignof_SmallFun = 1"

definition sizeof_SmallFun :: "nat \<Rightarrow> nat" where
  "sizeof_SmallFun n = n + 1"

definition memory_address :: "nat \<Rightarrow> nat \<Rightarrow> nat \<Rightarrow> nat" where
  "memory_address base n i = base + i * sizeof_SmallFun n"

definition suitably_aligned :: "nat \<Rightarrow> nat \<Rightarrow> bool" where
  "suitably_aligned al addr = (addr mod al = 0)"

section \<open>The store\<close>

lemma obj_at_SomeD: "obj_at w p = Some c \<Longrightarrow> p < length (objects w) \<and> objects w ! p = Some c"
  by (simp add: obj_at_def split: if_splits)

lemma obj_at_put_obj:
  "obj_at (put_obj p c w) q = (if q = p \<and> p < length (objects w) then Some c else obj_at w q)"
  by (simp add: obj_at_def put_obj_def)

lemma obj_at_put_obj_other: "q \<noteq> p \<Longrightarrow> obj_at (put_obj p c w) q = obj_at w q"
  by (simp add: obj_at_put_obj)

lemma obj_at_put_obj_same: "p < length (objects w) \<Longrightarrow> obj_at (put_obj p c w) p = Some c"
  by (simp add: obj_at_put_obj)

lemma obj_at_counters [simp]:
  "obj_at (w\<lparr>constructions := k\<rparr>) p = obj_at w p"
  "obj_at (w\<lparr>destructions := k\<rparr>) p = obj_at w p"
  by (simp_all add: obj_at_def)

lemma put_obj_same: "obj_at w p = Some c \<Longrightarrow> put_obj p c w = w"
proof -
  assume "obj_at w p = Some c"
  then have "objects w ! p = Some c" by (simp add: obj_at_SomeD)
  then have "(objects w)[p := Some c] = objects w" by (metis list_update_id)
  then show ?thesis by (simp add: put_obj_def)
qed

lemma obj_at_new_obj_old:
  "obj_at w q = Some c \<Longrightarrow> obj_at (snd (new_obj d w)) q = Some c"
  by (auto simp: obj_at_def new_obj_def nth_append split: if_splits)

lemma obj_at_new_obj_new: "obj_at (snd (new_obj d w)) (fst (new_obj d w)) = Some d"
  by (simp add: obj_at_def new_obj_def)

lemma sum_list_map_update:
  "p < length xs \<Longrightarrow> sum_list (map g (xs[p := y])) + g (xs ! p) = sum_list (map g xs) + (g y :: nat)"
proof (induction xs arbitrary: p)
  case Nil
  then show ?case by simp
next
  case (Cons x xs)
  then show ?case by (cases p) (simp_all add: add.assoc add.left_commute)
qed

lemma holds_Some: "holds (Some c) = (if memory c = None then 0 else 1)"
  by (simp add: holds_def split: option.splits)

lemma live_adapters_put_obj:
  "obj_at w p = Some c \<Longrightarrow>
   live_adapters (put_obj p c' w) + holds (Some c) = live_adapters w + holds (Some c')"
  using sum_list_map_update [of p "objects w" holds "Some c'"]
  by (auto simp: live_adapters_def put_obj_def dest!: obj_at_SomeD)

lemma live_adapters_remove:
  "obj_at w p = Some c \<Longrightarrow>
   live_adapters (w\<lparr>objects := (objects w)[p := None]\<rparr>) + holds (Some c) = live_adapters w"
  using sum_list_map_update [of p "objects w" holds None]
  by (auto simp: live_adapters_def holds_def dest!: obj_at_SomeD)

lemma live_adapters_new_obj:
  "live_adapters (snd (new_obj c w)) = live_adapters w + holds (Some c)"
  by (simp add: live_adapters_def new_obj_def)

lemma live_adapters_counters [simp]:
  "live_adapters (w\<lparr>constructions := k\<rparr>) = live_adapters w"
  "live_adapters (w\<lparr>destructions := k\<rparr>) = live_adapters w"
  by (simp_all add: live_adapters_def)

lemma wf_world_counters [simp]:
  "wf_world (w\<lparr>constructions := k\<rparr>) = wf_world w"
  "wf_world (w\<lparr>destructions := k\<rparr>) = wf_world w"
  by (simp_all add: wf_world_def)

lemma wf_world_obj_at: "wf_world w \<Longrightarrow> obj_at w p = Some c \<Longrightarrow> wf_SmallFun c"
  by (auto simp: wf_world_def list_all_length wf_entry_def dest!: obj_at_SomeD)

lemma list_all_update: "list_all P xs \<Longrightarrow> P y \<Longrightarrow> list_all P (xs[p := y])"
  unfolding list_all_iff using set_update_subset_insert [of xs p y] by auto

lemma wf_world_put_obj: "wf_world w \<Longrightarrow> wf_SmallFun c \<Longrightarrow> wf_world (put_obj p c w)"
  by (simp add: wf_world_def put_obj_def list_all_update wf_entry_def)

lemma wf_world_remove: "wf_world w \<Longrightarrow> wf_world (w\<lparr>objects := (objects w)[p := None]\<rparr>)"
  by (simp add: wf_world_def list_all_update wf_entry_def)

lemma wf_world_new_obj: "wf_world w \<Longrightarrow> wf_SmallFun c \<Longrightarrow> wf_world (snd (new_obj c w))"
  by (simp add: wf_world_def new_obj_def wf_entry_def)

section \<open>The example store\<close>

lemma example_world_at:
  "obj_at example_world 0 = Some \<lparr>size_SF = 64, memory = Some (SFModel closure_3_100), allocated = True\<rparr>"
  "obj_at example_world 1 = Some \<lparr>size_SF = 128, memory = None, allocated = False\<rparr>"
  "obj_at example_world 2 = Some \<lparr>size_SF = 128, memory = Some (SFModel closure_7_1), allocated = True\<rparr>"
  "obj_at example_world 3 = Some \<lparr>size_SF = 128, memory = Some (SFModel closure_3_100), allocated = True\<rparr>"
  by (simp_all add: example_world_def obj_at_def)

lemma example_wf:
  "wf_SmallFun \<lparr>size_SF = 64, memory = Some (SFModel closure_3_100), allocated = True\<rparr>"
  "wf_SmallFun \<lparr>size_SF = 128, memory = None, allocated = False\<rparr>"
  "wf_SmallFun \<lparr>size_SF = 128, memory = Some (SFModel closure_7_1), allocated = True\<rparr>"
  "wf_SmallFun \<lparr>size_SF = 128, memory = Some (SFModel closure_3_100), allocated = True\<rparr>"
  by (simp_all add: wf_SmallFun_def closure_3_100_def closure_7_1_def const_callable_def)

lemma F_invoke_const_callable:
  "F_invoke (const_callable sz g s) xs = (g s xs, const_callable sz g s)"
  "F_invoke_const (const_callable sz g s) xs = g s xs"
  by (simp_all add: F_invoke_def F_invoke_const_def const_callable_def)

lemma closure_3_100_5: "fst (F_invoke closure_3_100 5) = 115"
  by (simp add: closure_3_100_def F_invoke_const_callable Functor_call_def)

lemma closure_7_1_2: "fst (F_invoke closure_7_1 2) = 15"
  by (simp add: closure_7_1_def F_invoke_const_callable Functor_call_def)

section \<open>What the member functions do on well-formed containers\<close>

lemma wf_SmallFun_cases:
  "wf_SmallFun c \<Longrightarrow>
   (\<not> allocated c \<and> memory c = None) \<or>
   (\<exists>m. allocated c \<and> memory c = Some m \<and> sizeof_SFModel (model_f m) \<le> size_SF c)"
  by (auto simp: wf_SmallFun_def split: option.splits)

lemma SmallFun_update_same:
  "memory c = mm \<Longrightarrow> allocated c = b \<Longrightarrow> c\<lparr>memory := mm, allocated := b\<rparr> = c"
  by (cases c) simp

lemma clean_result:
  assumes "obj_at w this = Some c" and "wf_SmallFun c"
  shows "clean this w =
           Inr ((put_obj this (c\<lparr>memory := None, allocated := False\<rparr>) w)
                  \<lparr>destructions := destructions w + holds (Some c)\<rparr>)"
proof -
  from wf_SmallFun_cases [OF assms(2)] show ?thesis
  proof
    assume e: "\<not> allocated c \<and> memory c = None"
    then have "c\<lparr>memory := None, allocated := False\<rparr> = c" by (simp add: SmallFun_update_same)
    then have "put_obj this (c\<lparr>memory := None, allocated := False\<rparr>) w = w"
      by (simp only: put_obj_same [OF assms(1)])
    then show ?thesis using e assms(1) by (simp add: clean_def holds_Some)
  next
    assume "\<exists>m. allocated c \<and> memory c = Some m \<and> sizeof_SFModel (model_f m) \<le> size_SF c"
    then obtain m where m: "allocated c" "memory c = Some m" by blast
    then show ?thesis using assms(1) by (simp add: clean_def holds_Some)
  qed
qed

lemma assign_template_result:
  assumes dst: "obj_at w this = Some dst" and wfd: "wf_SmallFun dst"
    and src: "obj_at w sf = Some src" and wfs: "wf_SmallFun src"
    and ne: "this \<noteq> sf" and fits: "size_SF src \<le> size_SF dst"
  shows "assign_template this sf w =
           Inr ((put_obj this (dst\<lparr>memory := memory src, allocated := allocated src\<rparr>) w)
                  \<lparr>constructions := constructions w + holds (Some src),
                   destructions := destructions w + holds (Some dst)\<rparr>)"
proof -
  let ?c1 = "dst\<lparr>memory := None, allocated := False\<rparr>"
  let ?w1 = "(put_obj this ?c1 w)\<lparr>destructions := destructions w + holds (Some dst)\<rparr>"
  let ?c2 = "dst\<lparr>memory := None, allocated := allocated src\<rparr>"
  let ?w2 = "put_obj this ?c2 ?w1"
  have len: "this < length (objects w)" using obj_at_SomeD [OF dst] by simp
  have c: "clean this w = Inr ?w1" by (rule clean_result [OF dst wfd])
  have s1: "obj_at ?w1 sf = Some src" using src ne by (simp add: obj_at_put_obj)
  have d1: "obj_at ?w1 this = Some ?c1" using len by (simp add: obj_at_put_obj)
  have g: "get_allocated sf ?w1 = Inr (allocated src)" using s1 by (simp add: get_allocated_def)
  have sa: "set_allocated this (allocated src) ?w1 = Inr ?w2"
    using d1 by (simp add: set_allocated_def)
  have len1: "this < length (objects ?w1)" using len by (simp add: put_obj_def)
  have s2: "obj_at ?w2 sf = Some src" using s1 obj_at_put_obj_other [OF not_sym, OF ne, of ?c2 ?w1] by simp
  have d2: "obj_at ?w2 this = Some ?c2" using len1 by (rule obj_at_put_obj_same)
  have fin: "(put_obj this (?c2\<lparr>memory := memory src\<rparr>) ?w2)\<lparr>constructions := constructions ?w2 + 1\<rparr> =
             (put_obj this (dst\<lparr>memory := memory src, allocated := allocated src\<rparr>) w)
                  \<lparr>constructions := constructions w + 1,
                   destructions := destructions w + holds (Some dst)\<rparr>"
    by (cases w, cases dst) (simp add: put_obj_def)
  have cp: "SmallFun_copy sf this ?w2 =
              Inr ((put_obj this (dst\<lparr>memory := memory src, allocated := allocated src\<rparr>) w)
                  \<lparr>constructions := constructions w + holds (Some src),
                   destructions := destructions w + holds (Some dst)\<rparr>)"
  proof -
    from wf_SmallFun_cases [OF wfs] show ?thesis
    proof
      assume e: "\<not> allocated src \<and> memory src = None"
      have "SmallFun_copy sf this ?w2 = Inr ?w2" using e s2 by (simp add: SmallFun_copy_def)
      moreover have "?w2 = (put_obj this (dst\<lparr>memory := memory src, allocated := allocated src\<rparr>) w)
                  \<lparr>constructions := constructions w + holds (Some src),
                   destructions := destructions w + holds (Some dst)\<rparr>"
        using e by (cases w, cases dst) (simp add: put_obj_def holds_Some)
      ultimately show ?thesis by simp
    next
      assume "\<exists>m. allocated src \<and> memory src = Some m \<and> sizeof_SFModel (model_f m) \<le> size_SF src"
      then obtain m where m: "allocated src" "memory src = Some m"
        "sizeof_SFModel (model_f m) \<le> size_SF src" by blast
      have "SFModel_copy m this ?w2 =
              Inr ((put_obj this (?c2\<lparr>memory := Some (SFModel (model_f m))\<rparr>) ?w2)\<lparr>constructions := constructions ?w2 + 1\<rparr>)"
        using d2 m(3) fits by (simp add: SFModel_copy_def)
      then have "SmallFun_copy sf this ?w2 = 
              Inr ((put_obj this (?c2\<lparr>memory := memory src\<rparr>) ?w2)\<lparr>constructions := constructions ?w2 + 1\<rparr>)"
        using s2 m(1,2) by (simp add: SmallFun_copy_def)
      then show ?thesis using fin m(2) by (simp add: holds_Some)
    qed
  qed
  show ?thesis
    using dst src fits c g sa cp by (simp add: assign_template_def and_then_def)
qed

text \<open>The assignment template called with the container itself leaves it empty.\<close>

lemma assign_template_self:
  assumes dst: "obj_at w this = Some dst" and wfd: "wf_SmallFun dst"
  shows "assign_template this this w = clean this w"
proof -
  let ?c1 = "dst\<lparr>memory := None, allocated := False\<rparr>"
  let ?w1 = "(put_obj this ?c1 w)\<lparr>destructions := destructions w + holds (Some dst)\<rparr>"
  have len: "this < length (objects w)" using obj_at_SomeD [OF dst] by simp
  have c: "clean this w = Inr ?w1" by (rule clean_result [OF dst wfd])
  have d1: "obj_at ?w1 this = Some ?c1" using len by (simp add: obj_at_put_obj)
  have g: "get_allocated this ?w1 = Inr False" using d1 by (simp add: get_allocated_def)
  have "?c1\<lparr>allocated := False\<rparr> = ?c1" by simp
  then have "put_obj this (?c1\<lparr>allocated := False\<rparr>) ?w1 = ?w1"
    by (simp only: put_obj_same [OF d1])
  then have sa: "set_allocated this False ?w1 = Inr ?w1"
    using d1 by (simp add: set_allocated_def)
  have cp: "SmallFun_copy this this ?w1 = Inr ?w1" using d1 by (simp add: SmallFun_copy_def)
  show ?thesis using dst c g sa cp by (simp add: assign_template_def and_then_def)
qed

lemma copy_ctor_template_result:
  assumes src: "obj_at w sf = Some src" and wfs: "wf_SmallFun src" and fits: "size_SF src \<le> n"
  shows "copy_ctor_template n sf w =
           Inr (length (objects w),
                (snd (new_obj \<lparr>size_SF = n, memory = memory src, allocated = allocated src\<rparr> w))
                  \<lparr>constructions := constructions w + holds (Some src)\<rparr>)"
proof -
  let ?d0 = "\<lparr>size_SF = n, memory = None, allocated = allocated src\<rparr>"
  let ?p = "length (objects w)"
  let ?w1 = "snd (new_obj ?d0 w)"
  have n: "new_obj ?d0 w = (?p, ?w1)" by (simp add: new_obj_def)
  have s1: "obj_at ?w1 sf = Some src" by (rule obj_at_new_obj_old [OF src])
  have d1: "obj_at ?w1 ?p = Some ?d0" using obj_at_new_obj_new [of ?d0 w] by (simp add: new_obj_def)
  have cp: "SmallFun_copy sf ?p ?w1 =
              Inr ((snd (new_obj \<lparr>size_SF = n, memory = memory src, allocated = allocated src\<rparr> w))
                  \<lparr>constructions := constructions w + holds (Some src)\<rparr>)"
  proof -
    from wf_SmallFun_cases [OF wfs] show ?thesis
    proof
      assume e: "\<not> allocated src \<and> memory src = None"
      then show ?thesis using s1 by (simp add: SmallFun_copy_def holds_Some new_obj_def)
    next
      assume "\<exists>m. allocated src \<and> memory src = Some m \<and> sizeof_SFModel (model_f m) \<le> size_SF src"
      then obtain m where m: "allocated src" "memory src = Some m"
        "sizeof_SFModel (model_f m) \<le> size_SF src" by blast
      have "SFModel_copy m ?p ?w1 =
              Inr ((put_obj ?p (?d0\<lparr>memory := Some (SFModel (model_f m))\<rparr>) ?w1)\<lparr>constructions := constructions ?w1 + 1\<rparr>)"
        using d1 m(3) fits by (simp add: SFModel_copy_def)
      moreover have "(put_obj ?p (?d0\<lparr>memory := Some (SFModel (model_f m))\<rparr>) ?w1)\<lparr>constructions := constructions ?w1 + 1\<rparr>
          = (snd (new_obj \<lparr>size_SF = n, memory = memory src, allocated = allocated src\<rparr> w))
                  \<lparr>constructions := constructions w + holds (Some src)\<rparr>"
        using m(2) by (simp add: put_obj_def new_obj_def holds_Some)
      ultimately show ?thesis using s1 m(1,2) by (simp add: SmallFun_copy_def)
    qed
  qed
  show ?thesis using src fits cp by (simp add: copy_ctor_template_def and_then_def new_obj_def)
qed

section \<open>Calls\<close>

lemma SmallFun_call_holds:
  "obj_at w c = Some A \<Longrightarrow> memory A = Some (SFModel F) \<Longrightarrow>
   SmallFun_call c xs w =
     Inr (fst (F_invoke F xs), put_obj c (A\<lparr>memory := Some (SFModel (snd (F_invoke F xs)))\<rparr>) w)"
  by (simp add: SmallFun_call_def SFModel_call_def split: prod.splits)

lemma SmallFun_call_const_holds:
  "obj_at w c = Some A \<Longrightarrow> memory A = Some (SFModel F) \<Longrightarrow>
   SmallFun_call_const c xs w =
     Inr (fst (F_invoke F xs), put_obj c (A\<lparr>memory := Some (SFModel (snd (F_invoke F xs)))\<rparr>) w)"
  by (simp add: SmallFun_call_const_def SFModel_call_def split: prod.splits)

lemma returned_call:
  "obj_at w c = Some A \<Longrightarrow> memory A = Some (SFModel F) \<Longrightarrow>
   returned (SmallFun_call c xs w) = Inr (fst (F_invoke F xs)) \<and>
   returned (SmallFun_call_const c xs w) = Inr (fst (F_invoke F xs))"
  by (simp add: SmallFun_call_holds SmallFun_call_const_holds returned_def)

lemma returned_call_cong:
  "obj_at w' p = obj_at w p \<Longrightarrow>
   returned (SmallFun_call p xs w') = returned (SmallFun_call p xs w) \<and>
   returned (SmallFun_call_const p xs w') = returned (SmallFun_call_const p xs w)"
  by (simp add: SmallFun_call_def SmallFun_call_const_def returned_def
      split: option.splits prod.splits)

lemma same_resultsI:
  "obj_at w a = Some A \<Longrightarrow> memory A = Some (SFModel F) \<Longrightarrow>
   obj_at w b = Some B \<Longrightarrow> memory B = Some (SFModel F) \<Longrightarrow> same_results b a xs F w"
  using returned_call [of w a A F xs] returned_call [of w b B F xs]
  by (simp add: same_results_def)

lemma SmallFun_from_holds:
  "sizeof_SFModel F \<le> n \<Longrightarrow>
   \<exists>c w'. SmallFun_from n F w = Inr (c, w') \<and>
      obj_at w' c = Some \<lparr>size_SF = n, memory = Some (SFModel F), allocated = (sizeof_SFModel F \<noteq> 0)\<rparr>"
  by (simp add: SmallFun_from_def new_obj_def obj_at_def)

section \<open>Construction from a callable\<close>

text \<open>
  Claim C1 (call equivalence). When the adapter of a callable \<open>F\<close> fits the declared
  capacity \<open>n\<close>, the converting constructor accepts \<open>F\<close>, and calling the new container
  with \<open>xs\<close>, through the call operator or through the const-qualified one, returns what
  the call \<open>f(xs...)\<close> on \<open>F\<close> itself returns.
\<close>

theorem call_equivalence:
  assumes "sizeof_SFModel F \<le> n"
  shows "\<exists>c w'. SmallFun_from n F w = Inr (c, w') \<and>
           returned (SmallFun_call c xs w') = Inr (fst (F_invoke F xs)) \<and>
           returned (SmallFun_call_const c xs w') = Inr (fst (F_invoke F xs))"
proof -
  from SmallFun_from_holds [OF assms] obtain c w' where
    ok: "SmallFun_from n F w = Inr (c, w')"
    and at: "obj_at w' c = Some \<lparr>size_SF = n, memory = Some (SFModel F), allocated = (sizeof_SFModel F \<noteq> 0)\<rparr>"
    by blast
  have "returned (SmallFun_call c xs w') = Inr (fst (F_invoke F xs)) \<and>
        returned (SmallFun_call_const c xs w') = Inr (fst (F_invoke F xs))"
    using returned_call [OF at] by simp
  with ok show ?thesis by blast
qed

theorem call_equivalence_witness:
  "\<exists>c w'. SmallFun_from 128 closure_7_1 example_world = Inr (c, w') \<and>
           returned (SmallFun_call c 2 w') = Inr 15 \<and>
           returned (SmallFun_call_const c 2 w') = Inr 15"
proof -
  have "sizeof_SFModel closure_7_1 \<le> 128" by (simp add: closure_7_1_def const_callable_def)
  from call_equivalence [OF this, of example_world 2] show ?thesis
    by (simp add: closure_7_1_2)
qed

text \<open>
  Claim C7 (scenario 1). A container of capacity 64 constructed from the closure that
  captures \<open>i = 3\<close> and \<open>N = 100\<close> and computes \<open>i*j+N\<close> returns 115 when it is called
  with \<open>j = 5\<close>, whatever size not above 64 the adapter of the closure has.
\<close>

theorem scenario_115:
  assumes "sz \<le> 64"
  shows "\<exists>c w'. SmallFun_from 64 (const_callable sz Functor_call \<lparr>Functor_i = 3, Functor_N = 100\<rparr>) w
                   = Inr (c, w') \<and>
           returned (SmallFun_call c 5 w') = Inr 115 \<and>
           returned (SmallFun_call_const c 5 w') = Inr 115"
proof -
  let ?F = "const_callable sz Functor_call \<lparr>Functor_i = 3, Functor_N = 100\<rparr>"
  have sz: "sizeof_SFModel ?F \<le> 64" using assms by (simp add: const_callable_def)
  from SmallFun_from_holds [OF sz] obtain c w' where
    ok: "SmallFun_from 64 ?F w = Inr (c, w')"
    and at: "obj_at w' c = Some \<lparr>size_SF = 64, memory = Some (SFModel ?F), allocated = (sizeof_SFModel ?F \<noteq> 0)\<rparr>"
    by blast
  have r: "fst (F_invoke ?F 5) = 115"
    by (simp add: F_invoke_const_callable Functor_call_def)
  have "returned (SmallFun_call c 5 w') = Inr 115 \<and> returned (SmallFun_call_const c 5 w') = Inr 115"
    using returned_call [OF at] r by simp
  with ok show ?thesis by blast
qed

theorem scenario_115_witness:
  "\<exists>c w'. SmallFun_from 64 (const_callable 16 Functor_call \<lparr>Functor_i = 3, Functor_N = 100\<rparr>)
             empty_world = Inr (c, w') \<and>
           returned (SmallFun_call c 5 w') = Inr 115 \<and>
           returned (SmallFun_call_const c 5 w') = Inr 115"
  using scenario_115 [of 16 empty_world] by simp

text \<open>
  Claim C4 (capacity rejection). The converting constructor accepts a callable when its
  adapter fits the declared capacity, and then holds the adapter in the container's own
  \<open>memory\<close>. A callable whose adapter is larger is rejected by the \<open>enable_if\<close>
  condition, whatever the store holds; the construction has no other failure, and none
  that would arise while the program runs.
\<close>

theorem capacity_rejection:
  "(sizeof_SFModel F \<le> n \<longrightarrow>
      (\<exists>c w'. SmallFun_from n F w = Inr (c, w') \<and>
         obj_at w' c = Some \<lparr>size_SF = n, memory = Some (SFModel F),
                              allocated = (sizeof_SFModel F \<noteq> 0)\<rparr>)) \<and>
   (n < sizeof_SFModel F \<longrightarrow> SmallFun_from n F w = Inl No_matching_overload) \<and>
   SmallFun_from n F w \<noteq> Inl Undefined_behaviour \<and>
   SmallFun_from n F w \<noteq> Inl Dangling_reference"
proof (intro conjI impI)
  assume "sizeof_SFModel F \<le> n"
  then show "\<exists>c w'. SmallFun_from n F w = Inr (c, w') \<and>
         obj_at w' c = Some \<lparr>size_SF = n, memory = Some (SFModel F),
                              allocated = (sizeof_SFModel F \<noteq> 0)\<rparr>"
    by (rule SmallFun_from_holds)
next
  assume "n < sizeof_SFModel F"
  then show "SmallFun_from n F w = Inl No_matching_overload" by (simp add: SmallFun_from_def)
next
  show "SmallFun_from n F w \<noteq> Inl Undefined_behaviour" by (simp add: SmallFun_from_def)
next
  show "SmallFun_from n F w \<noteq> Inl Dangling_reference" by (simp add: SmallFun_from_def)
qed

theorem capacity_rejection_witness:
  "SmallFun_from 8 (const_callable 32 Functor_call \<lparr>Functor_i = 3, Functor_N = 100\<rparr>) empty_world
     = Inl No_matching_overload \<and>
   (\<exists>c w'. SmallFun_from 64 (const_callable 32 Functor_call \<lparr>Functor_i = 3, Functor_N = 100\<rparr>)
              empty_world = Inr (c, w') \<and>
      obj_at w' c = Some \<lparr>size_SF = 64,
        memory = Some (SFModel (const_callable 32 Functor_call \<lparr>Functor_i = 3, Functor_N = 100\<rparr>)),
        allocated = True\<rparr>)"
proof -
  let ?F = "const_callable 32 Functor_call \<lparr>Functor_i = 3, Functor_N = 100\<rparr>"
  have sz: "sizeof_SFModel ?F = 32" by (simp add: const_callable_def)
  show ?thesis
    using capacity_rejection [of ?F 8 empty_world] capacity_rejection [of ?F 64 empty_world] sz
    by simp
qed

section \<open>Clearing\<close>

text \<open>
  Claim C6 (clear). On a well-formed container \<open>clean\<close> succeeds. It destroys the adapter
  when one is held (one destruction more) and leaves the container empty; it changes
  nothing when the container is empty; it touches no other container and constructs
  nothing; and a second \<open>clean\<close> changes nothing more.
\<close>

theorem clean_idempotent:
  assumes c: "obj_at w this = Some c" and wf: "wf_SmallFun c"
  shows "\<exists>w'. clean this w = Inr w' \<and>
           obj_at w' this = Some (c\<lparr>memory := None, allocated := False\<rparr>) \<and>
           destructions w' = destructions w + (if allocated c then 1 else 0) \<and>
           constructions w' = constructions w \<and>
           (\<forall>q. q \<noteq> this \<longrightarrow> obj_at w' q = obj_at w q) \<and>
           (\<not> allocated c \<longrightarrow> w' = w) \<and>
           clean this w' = Inr w'"
proof -
  let ?c' = "c\<lparr>memory := None, allocated := False\<rparr>"
  let ?w' = "(put_obj this ?c' w)\<lparr>destructions := destructions w + holds (Some c)\<rparr>"
  have r: "clean this w = Inr ?w'" by (rule clean_result [OF c wf])
  have at: "obj_at ?w' this = Some ?c'" using obj_at_SomeD [OF c] by (simp add: obj_at_put_obj)
  have h: "holds (Some c) = (if allocated c then 1 else 0)"
    using wf_SmallFun_cases [OF wf] by (auto simp: holds_Some)
  have d: "destructions ?w' = destructions w + (if allocated c then 1 else 0)"
    using h by simp
  have k: "constructions ?w' = constructions w" by (simp add: put_obj_def)
  have fr: "\<forall>q. q \<noteq> this \<longrightarrow> obj_at ?w' q = obj_at w q" by (simp add: obj_at_put_obj)
  have e: "\<not> allocated c \<longrightarrow> ?w' = w"
  proof
    assume "\<not> allocated c"
    then have "clean this w = Inr w" using c by (simp add: clean_def)
    with r show "?w' = w" by simp
  qed
  have again: "clean this ?w' = Inr ?w'" using at by (simp add: clean_def)
  from r at d k fr e again show ?thesis by blast
qed

theorem clean_idempotent_witness:
  "\<exists>w'. clean 2 example_world = Inr w' \<and>
      obj_at w' 2 = Some \<lparr>size_SF = 128, memory = None, allocated = False\<rparr> \<and>
      destructions w' = 1 \<and> clean 2 w' = Inr w'"
  using clean_idempotent [OF example_world_at(3) example_wf(3)]
  by (auto simp: example_world_def)

section \<open>Copies\<close>

lemma copy_ctor_template_post:
  assumes src: "obj_at w sf = Some src" and wfs: "wf_SmallFun src" and fits: "size_SF src \<le> n"
  shows "\<exists>b w'. copy_ctor_template n sf w = Inr (b, w') \<and>
           obj_at w' b = Some \<lparr>size_SF = n, memory = memory src, allocated = allocated src\<rparr> \<and>
           obj_at w' sf = Some src \<and>
           constructions w' = constructions w + holds (Some src) \<and>
           destructions w' = destructions w"
proof -
  let ?d = "\<lparr>size_SF = n, memory = memory src, allocated = allocated src\<rparr>"
  let ?w' = "(snd (new_obj ?d w))\<lparr>constructions := constructions w + holds (Some src)\<rparr>"
  have r: "copy_ctor_template n sf w = Inr (length (objects w), ?w')"
    by (rule copy_ctor_template_result [OF src wfs fits])
  have s': "obj_at ?w' sf = Some src" using obj_at_new_obj_old [OF src] by simp
  have b': "obj_at ?w' (length (objects w)) = Some ?d"
    using obj_at_new_obj_new [of ?d w] by (simp add: new_obj_def)
  have "constructions ?w' = constructions w + holds (Some src)" "destructions ?w' = destructions w"
    by (simp_all add: new_obj_def)
  with r s' b' show ?thesis by blast
qed

lemma SmallFun_implicit_copy_ctor_post:
  assumes src: "obj_at w sf = Some src"
  shows "\<exists>b w'. SmallFun_implicit_copy_ctor n sf w = Inr (b, w') \<and>
           obj_at w' b = Some \<lparr>size_SF = n, memory = memory src, allocated = allocated src\<rparr> \<and>
           obj_at w' sf = Some src \<and>
           constructions w' = constructions w \<and> destructions w' = destructions w"
proof -
  let ?d = "\<lparr>size_SF = n, memory = memory src, allocated = allocated src\<rparr>"
  let ?w' = "snd (new_obj ?d w)"
  have r: "SmallFun_implicit_copy_ctor n sf w = Inr (length (objects w), ?w')"
    using src by (simp add: SmallFun_implicit_copy_ctor_def new_obj_def)
  have s': "obj_at ?w' sf = Some src" by (rule obj_at_new_obj_old [OF src])
  have b': "obj_at ?w' (length (objects w)) = Some ?d"
    using obj_at_new_obj_new [of ?d w] by (simp add: new_obj_def)
  have "constructions ?w' = constructions w" "destructions ?w' = destructions w"
    by (simp_all add: new_obj_def)
  with r s' b' show ?thesis by blast
qed

text \<open>
  A copy of a \<open>SmallFun\<close> builds only between containers of equal capacity, and then it
  is the memberwise one: the new container is appended to the store, or the destination
  overwritten, and nothing else changes.
\<close>

lemma SmallFun_copy_ctor_smaller:
  "obj_at w sf = Some src \<Longrightarrow> size_SF src < n \<Longrightarrow>
   SmallFun_copy_ctor n sf w = Inl Inaccessible_member"
  by (simp add: SmallFun_copy_ctor_def)

lemma SmallFun_copy_ctor_InrD:
  "SmallFun_copy_ctor n sf w = Inr (c, w') \<Longrightarrow>
   \<exists>src. obj_at w sf = Some src \<and> size_SF src = n \<and> copy_ctor_template n sf w = Inr (c, w')"
  by (auto simp: SmallFun_copy_ctor_def copy_ctor_template_def split: option.splits if_splits)

lemma copy_construct_equal:
  "obj_at w sf = Some src \<Longrightarrow>
   copy_construct (size_SF src) sf w =
     Inr (length (objects w),
          w\<lparr>objects := objects w @
               [Some \<lparr>size_SF = size_SF src, memory = memory src, allocated = allocated src\<rparr>]\<rparr>)"
  by (simp add: copy_construct_def SmallFun_implicit_copy_ctor_def new_obj_def)

lemma copy_construct_smaller:
  "obj_at w sf = Some src \<Longrightarrow> size_SF src < n \<Longrightarrow>
   copy_construct n sf w = Inl Inaccessible_member"
  by (simp add: copy_construct_def SmallFun_copy_ctor_def)

lemma copy_construct_InrD:
  "copy_construct n sf w = Inr (c, w') \<Longrightarrow>
   \<exists>src. obj_at w sf = Some src \<and> size_SF src = n \<and> c = length (objects w) \<and>
     w' = w\<lparr>objects := objects w @
              [Some \<lparr>size_SF = n, memory = memory src, allocated = allocated src\<rparr>]\<rparr>"
  by (auto simp: copy_construct_def SmallFun_implicit_copy_ctor_def SmallFun_copy_ctor_def
      copy_ctor_template_def new_obj_def split: option.splits if_splits)

lemma assign_template_post:
  assumes dst: "obj_at w this = Some dst" and wfd: "wf_SmallFun dst"
    and src: "obj_at w sf = Some src" and wfs: "wf_SmallFun src"
    and ne: "this \<noteq> sf" and fits: "size_SF src \<le> size_SF dst"
  shows "\<exists>w'. assign_template this sf w = Inr w' \<and>
           obj_at w' this = Some (dst\<lparr>memory := memory src, allocated := allocated src\<rparr>) \<and>
           obj_at w' sf = Some src \<and>
           constructions w' = constructions w + holds (Some src) \<and>
           destructions w' = destructions w + holds (Some dst)"
proof -
  let ?d = "dst\<lparr>memory := memory src, allocated := allocated src\<rparr>"
  let ?w' = "(put_obj this ?d w)\<lparr>constructions := constructions w + holds (Some src),
                   destructions := destructions w + holds (Some dst)\<rparr>"
  have r: "assign_template this sf w = Inr ?w'"
    by (rule assign_template_result [OF dst wfd src wfs ne fits])
  have s': "obj_at ?w' sf = Some src" using src ne by (simp add: obj_at_put_obj)
  have d': "obj_at ?w' this = Some ?d" using obj_at_SomeD [OF dst] by (simp add: obj_at_put_obj)
  have "constructions ?w' = constructions w + holds (Some src)"
    "destructions ?w' = destructions w + holds (Some dst)"
    by (simp_all add: put_obj_def)
  with r s' d' show ?thesis by blast
qed

lemma SmallFun_implicit_assign_post:
  assumes dst: "obj_at w this = Some dst" and src: "obj_at w sf = Some src" and ne: "this \<noteq> sf"
  shows "\<exists>w'. SmallFun_implicit_assign this sf w = Inr w' \<and>
           obj_at w' this = Some (dst\<lparr>memory := memory src, allocated := allocated src\<rparr>) \<and>
           obj_at w' sf = Some src \<and>
           constructions w' = constructions w \<and> destructions w' = destructions w"
proof -
  let ?d = "dst\<lparr>memory := memory src, allocated := allocated src\<rparr>"
  let ?w' = "put_obj this ?d w"
  have r: "SmallFun_implicit_assign this sf w = Inr ?w'"
    using dst src by (simp add: SmallFun_implicit_assign_def)
  have s': "obj_at ?w' sf = Some src" using src ne by (simp add: obj_at_put_obj)
  have d': "obj_at ?w' this = Some ?d" using obj_at_SomeD [OF dst] by (simp add: obj_at_put_obj)
  have "constructions ?w' = constructions w" "destructions ?w' = destructions w"
    by (simp_all add: put_obj_def)
  with r s' d' show ?thesis by blast
qed

lemma SmallFun_assign_smaller:
  "obj_at w this = Some dst \<Longrightarrow> obj_at w sf = Some src \<Longrightarrow> size_SF src < size_SF dst \<Longrightarrow>
   SmallFun_assign this sf w = Inl Inaccessible_member"
  by (simp add: SmallFun_assign_def)


lemma SmallFun_assign_InrD:
  "SmallFun_assign this sf w = Inr w' \<Longrightarrow>
   \<exists>dst src. obj_at w this = Some dst \<and> obj_at w sf = Some src \<and> size_SF src = size_SF dst \<and>
     assign_template this sf w = Inr w'"
  by (auto simp: SmallFun_assign_def assign_template_def split: option.splits if_splits)

lemma copy_assign_equal:
  "obj_at w this = Some dst \<Longrightarrow> obj_at w sf = Some src \<Longrightarrow> size_SF src = size_SF dst \<Longrightarrow>
   copy_assign this sf w =
     Inr (put_obj this (dst\<lparr>memory := memory src, allocated := allocated src\<rparr>) w)"
  by (simp add: copy_assign_def SmallFun_implicit_assign_def)

lemma copy_assign_smaller:
  "obj_at w this = Some dst \<Longrightarrow> obj_at w sf = Some src \<Longrightarrow> size_SF src < size_SF dst \<Longrightarrow>
   copy_assign this sf w = Inl Inaccessible_member"
  by (simp add: copy_assign_def SmallFun_assign_def)

lemma copy_assign_InrD:
  "copy_assign this sf w = Inr w' \<Longrightarrow>
   \<exists>dst src. obj_at w this = Some dst \<and> obj_at w sf = Some src \<and> size_SF src = size_SF dst \<and>
     w' = put_obj this (dst\<lparr>memory := memory src, allocated := allocated src\<rparr>) w"
  by (auto simp: copy_assign_def SmallFun_implicit_assign_def SmallFun_assign_def
      assign_template_def split: option.splits if_splits)

lemma SmallFunction_assign_never_returns: "SmallFunction_assign this sf w \<noteq> Inr w'"
  by (simp add: SmallFunction_assign_def and_then_def split: sum.splits)

lemma SmallFun_implicit_assign_at:
  assumes dst: "obj_at w this = Some dst" and src: "obj_at w sf = Some src"
  shows "\<exists>w'. SmallFun_implicit_assign this sf w = Inr w' \<and>
           obj_at w' this = Some (dst\<lparr>memory := memory src, allocated := allocated src\<rparr>) \<and>
           constructions w' = constructions w \<and> destructions w' = destructions w"
proof -
  let ?w' = "put_obj this (dst\<lparr>memory := memory src, allocated := allocated src\<rparr>) w"
  have "SmallFun_implicit_assign this sf w = Inr ?w'"
    using dst src by (simp add: SmallFun_implicit_assign_def)
  moreover have "obj_at ?w' this = Some (dst\<lparr>memory := memory src, allocated := allocated src\<rparr>)"
    using obj_at_SomeD [OF dst] by (simp add: obj_at_put_obj)
  moreover have "constructions ?w' = constructions w" "destructions ?w' = destructions w"
    by (simp_all add: put_obj_def)
  ultimately show ?thesis by blast
qed

text \<open>No member function changes a container other than the one it writes to.\<close>

lemma SmallFun_copy_frame:
  "SmallFun_copy this data w = Inr w' \<Longrightarrow> q \<noteq> data \<Longrightarrow> obj_at w' q = obj_at w q"
  by (auto simp: SmallFun_copy_def SFModel_copy_def obj_at_put_obj
      split: option.splits if_splits)

lemma clean_frame: "clean this w = Inr w' \<Longrightarrow> q \<noteq> this \<Longrightarrow> obj_at w' q = obj_at w q"
  by (auto simp: clean_def obj_at_put_obj split: option.splits if_splits)

lemma set_allocated_frame:
  "set_allocated this b w = Inr w' \<Longrightarrow> q \<noteq> this \<Longrightarrow> obj_at w' q = obj_at w q"
  by (auto simp: set_allocated_def obj_at_put_obj split: option.splits)

lemma assign_template_frame:
  assumes ok: "assign_template this sf w = Inr w'" and ne: "q \<noteq> this"
  shows "obj_at w' q = obj_at w q"
proof -
  from ok obtain w1 b w2 where c: "clean this w = Inr w1"
    and sa: "set_allocated this b w1 = Inr w2" and cp: "SmallFun_copy sf this w2 = Inr w'"
    by (auto simp: assign_template_def and_then_def split: option.splits if_splits sum.splits)
  have "obj_at w' q = obj_at w2 q" by (rule SmallFun_copy_frame [OF cp ne])
  also have "\<dots> = obj_at w1 q" by (rule set_allocated_frame [OF sa ne])
  also have "\<dots> = obj_at w q" by (rule clean_frame [OF c ne])
  finally show ?thesis .
qed

lemma copy_ctor_template_frame:
  assumes ok: "copy_ctor_template n sf w = Inr (c, w')"
  shows "c = length (objects w)" and "q < length (objects w) \<Longrightarrow> obj_at w' q = obj_at w q"
proof -
  let ?w1 = "w\<lparr>objects := objects w @
                [Some \<lparr>size_SF = n, memory = None, allocated = allocated (the (obj_at w sf))\<rparr>]\<rparr>"
  from ok have c: "c = length (objects w)"
    and cp: "SmallFun_copy sf (length (objects w)) ?w1 = Inr w'"
    by (auto simp: copy_ctor_template_def and_then_def new_obj_def
        split: option.splits if_splits sum.splits)
  show "c = length (objects w)" by (rule c)
  assume q: "q < length (objects w)"
  then have "obj_at w' q = obj_at ?w1 q" using SmallFun_copy_frame [OF cp, of q] by simp
  also have "\<dots> = obj_at w q" using q by (simp add: obj_at_def nth_append)
  finally show "obj_at w' q = obj_at w q" .
qed


lemma assign_template_clears_then_copies:
  assumes dst: "obj_at w this = Some dst" and wfd: "wf_SmallFun dst"
    and src: "obj_at w sf = Some src" and wfs: "wf_SmallFun src"
    and ne: "this \<noteq> sf" and fits: "size_SF src \<le> size_SF dst"
  shows "\<exists>w1 w'. clean this w = Inr w1 \<and>
           SmallFun_copy sf this (put_obj this (dst\<lparr>memory := None, allocated := allocated src\<rparr>) w1)
             = Inr w' \<and>
           assign_template this sf w = Inr w' \<and>
           obj_at w' this = Some (dst\<lparr>memory := memory src, allocated := allocated src\<rparr>) \<and>
           destructions w' = destructions w + holds (Some dst) \<and>
           constructions w' = constructions w + holds (Some src)"
proof -
  let ?c1 = "dst\<lparr>memory := None, allocated := False\<rparr>"
  let ?w1 = "(put_obj this ?c1 w)\<lparr>destructions := destructions w + holds (Some dst)\<rparr>"
  let ?d = "dst\<lparr>memory := memory src, allocated := allocated src\<rparr>"
  let ?w' = "(put_obj this ?d w)\<lparr>constructions := constructions w + holds (Some src),
                   destructions := destructions w + holds (Some dst)\<rparr>"
  have c: "clean this w = Inr ?w1" by (rule clean_result [OF dst wfd])
  have r: "assign_template this sf w = Inr ?w'"
    by (rule assign_template_result [OF dst wfd src wfs ne fits])
  have d1: "obj_at ?w1 this = Some ?c1" using obj_at_SomeD [OF dst] by (simp add: obj_at_put_obj)
  have s1: "obj_at ?w1 sf = Some src" using src ne by (simp add: obj_at_put_obj)
  have "assign_template this sf w =
          SmallFun_copy sf this (put_obj this (?c1\<lparr>allocated := allocated src\<rparr>) ?w1)"
    using dst src fits c d1 s1
    by (simp add: assign_template_def and_then_def get_allocated_def set_allocated_def)
  then have cp: "SmallFun_copy sf this (put_obj this (dst\<lparr>memory := None, allocated := allocated src\<rparr>) ?w1)
                  = Inr ?w'"
    using r by simp
  have at: "obj_at ?w' this = Some ?d" using obj_at_SomeD [OF dst] by (simp add: obj_at_put_obj)
  have "destructions ?w' = destructions w + holds (Some dst)"
    "constructions ?w' = constructions w + holds (Some src)"
    by (simp_all add: put_obj_def)
  with c cp r at show ?thesis by blast
qed

text \<open>
  Between containers of equal capacity the copy returns what its source returns; so
  does, at every capacity that the \<open>enable_if\<close> admits, a \<open>SmallFunction\<close> made by the
  constructor template.
\<close>

lemma equal_capacity_copy_same_results:
  assumes A: "obj_at w a = Some A" and F: "memory A = Some (SFModel F)"
  shows "(\<exists>b w'. copy_construct (size_SF A) a w = Inr (b, w') \<and> b = length (objects w) \<and>
            obj_at w' b = Some \<lparr>size_SF = size_SF A, memory = memory A, allocated = allocated A\<rparr> \<and>
            same_results b a xs F w') \<and>
         (\<forall>b B. obj_at w b = Some B \<and> size_SF B = size_SF A \<longrightarrow>
            (\<exists>w'. copy_assign b a w = Inr w' \<and> same_results b a xs F w'))"
proof (intro conjI allI impI)
  let ?d = "\<lparr>size_SF = size_SF A, memory = memory A, allocated = allocated A\<rparr>"
  let ?w' = "w\<lparr>objects := objects w @ [Some ?d]\<rparr>"
  have r: "copy_construct (size_SF A) a w = Inr (length (objects w), ?w')"
    by (rule copy_construct_equal [OF A])
  have a': "obj_at ?w' a = Some A"
    using obj_at_new_obj_old [OF A, of ?d] by (simp add: new_obj_def)
  have b': "obj_at ?w' (length (objects w)) = Some ?d" by (simp add: obj_at_def)
  have "same_results (length (objects w)) a xs F ?w'"
    using same_resultsI [OF a' F b'] F by simp
  with r b' show "\<exists>b w'. copy_construct (size_SF A) a w = Inr (b, w') \<and> b = length (objects w) \<and>
            obj_at w' b = Some ?d \<and> same_results b a xs F w'" by blast
next
  fix b B
  assume h: "obj_at w b = Some B \<and> size_SF B = size_SF A"
  then have B: "obj_at w b = Some B" and eq: "size_SF A = size_SF B" by simp_all
  let ?d = "B\<lparr>memory := memory A, allocated := allocated A\<rparr>"
  let ?w' = "put_obj b ?d w"
  have r: "copy_assign b a w = Inr ?w'" by (rule copy_assign_equal [OF B A eq])
  have b': "obj_at ?w' b = Some ?d" using obj_at_SomeD [OF B] by (simp add: obj_at_put_obj)
  have "\<exists>A'. obj_at ?w' a = Some A' \<and> memory A' = Some (SFModel F)"
  proof (cases "a = b")
    case True
    with b' F show ?thesis by simp
  next
    case False
    with A F show ?thesis by (simp add: obj_at_put_obj)
  qed
  then obtain A' where a': "obj_at ?w' a = Some A'" and F': "memory A' = Some (SFModel F)" by blast
  have "same_results b a xs F ?w'" using same_resultsI [OF a' F' b'] F by simp
  with r show "\<exists>w'. copy_assign b a w = Inr w' \<and> same_results b a xs F w'" by blast
qed

lemma SmallFunction_copy_ctor_same_results:
  assumes A: "obj_at w a = Some A" and wfA: "wf_SmallFun A" and F: "memory A = Some (SFModel F)"
    and fits: "size_SF A \<le> S2"
  shows "\<exists>b w'. SmallFunction_copy_ctor S2 a w = Inr (b, w') \<and> b = length (objects w) \<and>
           obj_at w' b = Some \<lparr>size_SF = S2, memory = memory A, allocated = allocated A\<rparr> \<and>
           same_results b a xs F w'"
proof -
  let ?d = "\<lparr>size_SF = S2, memory = memory A, allocated = allocated A\<rparr>"
  let ?w' = "(snd (new_obj ?d w))\<lparr>constructions := constructions w + holds (Some A)\<rparr>"
  have r: "SmallFunction_copy_ctor S2 a w = Inr (length (objects w), ?w')"
    using copy_ctor_template_result [OF A wfA fits] by (simp add: SmallFunction_copy_ctor_def)
  have a': "obj_at ?w' a = Some A" using obj_at_new_obj_old [OF A] by simp
  have b': "obj_at ?w' (length (objects w)) = Some ?d"
    using obj_at_new_obj_new [of ?d w] by (simp add: new_obj_def)
  have "same_results (length (objects w)) a xs F ?w'"
    using same_resultsI [OF a' F b'] F by simp
  with r b' show ?thesis by blast
qed

text \<open>
  Claim C2 (cross-capacity copy equivalence) says that a container of capacity
  \<open>S2 \<ge> S1\<close> that is copy-constructed or copy-assigned from a container of capacity \<open>S1\<close>
  returns what that one returns. In the example store the container 0 has capacity 64
  and holds a closure, and the container 2 has capacity 128. Copy-constructing a
  container of capacity 128 from 0, and copy-assigning 0 to 2, select the templates of
  \<open>SmallFun\<close>, which name the private member \<open>allocated\<close> of another class: no copy is
  made. The assignment operator of \<open>SmallFunction\<close>, which builds, runs into the end of
  its body without a return statement.
\<close>

theorem cross_capacity_copy_does_not_build:
  "copy_construct 128 0 example_world = Inl Inaccessible_member \<and>
   SmallFun_copy_ctor 128 0 example_world = Inl Inaccessible_member \<and>
   copy_assign 2 0 example_world = Inl Inaccessible_member \<and>
   SmallFun_assign 2 0 example_world = Inl Inaccessible_member \<and>
   SmallFunction_assign 2 0 example_world = Inl Undefined_behaviour"
proof -
  have lt: "size_SF \<lparr>size_SF = 64, memory = Some (SFModel closure_3_100), allocated = True\<rparr>
              < (128::nat)" by simp
  have lt2: "size_SF \<lparr>size_SF = 64, memory = Some (SFModel closure_3_100), allocated = True\<rparr>
              < size_SF \<lparr>size_SF = 128, memory = Some (SFModel closure_7_1), allocated = True\<rparr>"
    by simp
  have ne: "(2::nat) \<noteq> 0" by simp
  have le: "size_SF \<lparr>size_SF = 64, memory = Some (SFModel closure_3_100), allocated = True\<rparr>
              \<le> size_SF \<lparr>size_SF = 128, memory = Some (SFModel closure_7_1), allocated = True\<rparr>"
    by simp
  from assign_template_result [OF example_world_at(3) example_wf(3) example_world_at(1)
      example_wf(1) ne le]
  have "SmallFunction_assign 2 0 example_world = Inl Undefined_behaviour"
    by (simp add: SmallFunction_assign_def and_then_def)
  then show ?thesis
    using copy_construct_smaller [OF example_world_at(1) lt]
      SmallFun_copy_ctor_smaller [OF example_world_at(1) lt]
      copy_assign_smaller [OF example_world_at(3) example_world_at(1) lt2]
      SmallFun_assign_smaller [OF example_world_at(3) example_world_at(1) lt2]
    by simp
qed




lemma source_keptI: "obj_at w' sf = obj_at w sf \<Longrightarrow> source_kept sf xs w w'"
  using returned_call_cong [of w' sf w xs] by (simp add: source_kept_def)

text \<open>
  Claim C10 (the source of a copy is unchanged). Every copy-construction and every
  copy-assignment that returns leaves its source as it was: the same flag, the same
  adapter, and so the same results when it is called; copy-construction returns a
  container that was not in the store. This is so for the copy that is selected, which
  returns at equal capacity, for the copy helper \<open>SmallFun::copy\<close> with a destination
  other than the source, and for the templates wherever they run (the assignment
  template with a destination other than the source).
\<close>

theorem source_unchanged:
  assumes src: "obj_at w sf = Some src"
  shows "(\<exists>c w'. copy_construct (size_SF src) sf w = Inr (c, w')) \<and>
         (\<forall>n c w'. copy_construct n sf w = Inr (c, w') \<longrightarrow>
            c = length (objects w) \<and> source_kept sf xs w w') \<and>
         (\<forall>this dst. obj_at w this = Some dst \<and> size_SF dst = size_SF src \<longrightarrow>
            (\<exists>w'. copy_assign this sf w = Inr w')) \<and>
         (\<forall>this w'. copy_assign this sf w = Inr w' \<longrightarrow> source_kept sf xs w w') \<and>
         (\<forall>data w'. data \<noteq> sf \<and> SmallFun_copy sf data w = Inr w' \<longrightarrow> source_kept sf xs w w') \<and>
         (\<forall>n c w'. SmallFun_copy_ctor n sf w = Inr (c, w') \<or>
                    SmallFunction_copy_ctor n sf w = Inr (c, w') \<longrightarrow>
            c = length (objects w) \<and> source_kept sf xs w w') \<and>
         (\<forall>this w'. this \<noteq> sf \<and> SmallFun_assign this sf w = Inr w' \<longrightarrow>
            source_kept sf xs w w')"
proof -
  have lt: "sf < length (objects w)" using obj_at_SomeD [OF src] by simp
  have p1: "\<exists>c w'. copy_construct (size_SF src) sf w = Inr (c, w')"
    using copy_construct_equal [OF src] by blast
  have p2: "c = length (objects w) \<and> source_kept sf xs w w'"
    if ok: "copy_construct n sf w = Inr (c, w')" for n c w'
  proof -
    from copy_construct_InrD [OF ok] obtain s where "obj_at w sf = Some s"
      and c: "c = length (objects w)"
      and w': "w' = w\<lparr>objects := objects w @
                      [Some \<lparr>size_SF = n, memory = memory s, allocated = allocated s\<rparr>]\<rparr>"
      by blast
    have "obj_at w' sf = obj_at w sf" using lt by (simp add: w' obj_at_def nth_append)
    with c show ?thesis by (simp add: source_keptI)
  qed
  have p3: "\<exists>w'. copy_assign this sf w = Inr w'"
    if "obj_at w this = Some dst" and "size_SF dst = size_SF src" for this dst
    using copy_assign_equal [OF that(1) src] that(2) by simp
  have p4: "source_kept sf xs w w'" if ok: "copy_assign this sf w = Inr w'" for this w'
  proof -
    from copy_assign_InrD [OF ok] src obtain dst where dst: "obj_at w this = Some dst"
      and w': "w' = put_obj this (dst\<lparr>memory := memory src, allocated := allocated src\<rparr>) w"
      by auto
    have "obj_at w' sf = obj_at w sf"
    proof (cases "this = sf")
      case False
      then show ?thesis by (simp add: w' obj_at_put_obj)
    next
      case True
      with dst src have "dst = src" by simp
      then have "dst\<lparr>memory := memory src, allocated := allocated src\<rparr> = src"
        by (simp add: SmallFun_update_same)
      then show ?thesis using True src lt by (simp add: w' obj_at_put_obj)
    qed
    then show ?thesis by (rule source_keptI)
  qed
  have p5: "source_kept sf xs w w'"
    if "data \<noteq> sf" and ok: "SmallFun_copy sf data w = Inr w'" for data w'
    using SmallFun_copy_frame [OF ok, of sf] that(1) by (simp add: source_keptI)
  have t: "c = length (objects w) \<and> source_kept sf xs w w'"
    if ok: "copy_ctor_template n sf w = Inr (c, w')" for n c w'
    using copy_ctor_template_frame [OF ok] lt by (simp add: source_keptI)
  have p6: "c = length (objects w) \<and> source_kept sf xs w w'"
    if ok: "SmallFun_copy_ctor n sf w = Inr (c, w') \<or> SmallFunction_copy_ctor n sf w = Inr (c, w')"
    for n c w'
    using ok SmallFun_copy_ctor_InrD [of n sf w c w'] t [of n c w']
    by (auto simp: SmallFunction_copy_ctor_def)
  have p7: "source_kept sf xs w w'"
    if "this \<noteq> sf" and ok: "SmallFun_assign this sf w = Inr w'" for this w'
  proof -
    from SmallFun_assign_InrD [OF ok] have "assign_template this sf w = Inr w'" by blast
    from assign_template_frame [OF this, of sf] that(1) show ?thesis by (simp add: source_keptI)
  qed
  from p1 p2 p3 p4 p5 p6 p7 show ?thesis by blast
qed

theorem source_unchanged_witness:
  "(\<exists>c w'. copy_construct 128 3 example_world = Inr (c, w') \<and> c = 4 \<and>
      obj_at w' 3 = Some \<lparr>size_SF = 128, memory = Some (SFModel closure_3_100), allocated = True\<rparr> \<and>
      returned (SmallFun_call 3 5 w') = Inr 115) \<and>
   (\<exists>w'. copy_assign 2 3 example_world = Inr w' \<and>
      obj_at w' 3 = Some \<lparr>size_SF = 128, memory = Some (SFModel closure_3_100), allocated = True\<rparr> \<and>
      returned (SmallFun_call 3 5 w') = Inr 115)"
proof -
  let ?C = "\<lparr>size_SF = 128, memory = Some (SFModel closure_3_100), allocated = True\<rparr>"
  note t = source_unchanged [OF example_world_at(4), of 5]
  have r: "returned (SmallFun_call 3 5 example_world) = Inr 115"
    using returned_call [OF example_world_at(4), of closure_3_100 5] by (simp add: closure_3_100_5)
  have len: "length (objects example_world) = 4" by (simp add: example_world_def)
  from t obtain c w' where c: "copy_construct 128 3 example_world = Inr (c, w')" by auto
  with t have "c = length (objects example_world) \<and> source_kept 3 5 example_world w'" by blast
  then have a: "c = 4 \<and> obj_at w' 3 = Some ?C \<and> returned (SmallFun_call 3 5 w') = Inr 115"
    using len r example_world_at(4) by (simp add: source_kept_def)
  have "obj_at example_world 2 =
          Some \<lparr>size_SF = 128, memory = Some (SFModel closure_7_1), allocated = True\<rparr> \<and>
        size_SF \<lparr>size_SF = 128, memory = Some (SFModel closure_7_1), allocated = True\<rparr> = size_SF ?C"
    using example_world_at(3) by simp
  with t obtain w2 where d: "copy_assign 2 3 example_world = Inr w2" by blast
  with t have "source_kept 3 5 example_world w2" by blast
  then have b: "obj_at w2 3 = Some ?C \<and> returned (SmallFun_call 3 5 w2) = Inr 115"
    using r example_world_at(4) by (simp add: source_kept_def)
  from a b c d show ?thesis by blast
qed

text \<open>
  Claim C5 (copy-assignment) says that copy-assignment from a container whose capacity
  is not above the destination's first clears the destination and then has the
  source's adapter copy itself into the destination. In the example store the
  containers 2 and 3 have the capacity 128 and both hold a closure. Assigning 3 to 2
  leaves 2 with the payload of 3, but nothing is destroyed and nothing is constructed,
  whereas \<open>clean\<close> on 2 destroys one adapter.
\<close>

theorem equal_capacity_assignment_keeps_payload:
  "\<exists>w' w1. copy_assign 2 3 example_world = Inr w' \<and>
      obj_at w' 2 = Some \<lparr>size_SF = 128, memory = Some (SFModel closure_3_100), allocated = True\<rparr> \<and>
      destructions w' = 0 \<and> constructions w' = 3 \<and>
      clean 2 example_world = Inr w1 \<and> destructions w1 = 1"
proof -
  have ne: "(2::nat) \<noteq> 3" by simp
  have "copy_assign 2 3 example_world = SmallFun_implicit_assign 2 3 example_world"
    using example_world_at(3,4) by (simp add: copy_assign_def)
  with SmallFun_implicit_assign_post [OF example_world_at(3) example_world_at(4) ne]
  have a: "\<exists>w'. copy_assign 2 3 example_world = Inr w' \<and>
      obj_at w' 2 = Some \<lparr>size_SF = 128, memory = Some (SFModel closure_3_100), allocated = True\<rparr> \<and>
      destructions w' = 0 \<and> constructions w' = 3"
    by (auto simp: example_world_def)
  from clean_result [OF example_world_at(3) example_wf(3)]
  have "\<exists>w1. clean 2 example_world = Inr w1 \<and> destructions w1 = 1"
    by (simp add: example_world_def holds_def)
  with a show ?thesis by blast
qed

section \<open>The member functions keep the store balanced\<close>

lemma clean_balanced:
  assumes "balanced w"
  shows "clean this w \<noteq> Inl Undefined_behaviour"
    and "clean this w = Inr w' \<Longrightarrow> balanced w'"
proof -
  show "clean this w \<noteq> Inl Undefined_behaviour"
    using assms wf_world_obj_at [of w this]
    by (auto simp: clean_def balanced_def wf_SmallFun_def split: option.splits)
  assume ok: "clean this w = Inr w'"
  show "balanced w'"
  proof (cases "obj_at w this")
    case None
    with ok show ?thesis by (simp add: clean_def)
  next
    case (Some c)
    show ?thesis
    proof (cases "allocated c")
      case False
      with ok Some assms show ?thesis by (simp add: clean_def)
    next
      case True
      with ok Some obtain m where m: "memory c = Some m"
        and w': "w' = (put_obj this (c\<lparr>memory := None, allocated := False\<rparr>) w)\<lparr>destructions := destructions w + 1\<rparr>"
        by (auto simp: clean_def split: option.splits)
      have "wf_world w'"
        using assms by (simp add: w' balanced_def wf_world_put_obj wf_SmallFun_def)
      moreover have "live_adapters w' + 1 = live_adapters w"
        using live_adapters_put_obj [OF Some, of "c\<lparr>memory := None, allocated := False\<rparr>"] m
        by (simp add: w' holds_Some)
      moreover have "constructions w' = constructions w" "destructions w' = destructions w + 1"
        by (simp_all add: w' put_obj_def)
      ultimately show ?thesis using assms by (simp add: balanced_def)
    qed
  qed
qed

lemma SmallFun_dtor_balanced:
  assumes "balanced w"
  shows "SmallFun_dtor this w \<noteq> Inl Undefined_behaviour"
    and "SmallFun_dtor this w = Inr w' \<Longrightarrow> balanced w'"
proof -
  show "SmallFun_dtor this w \<noteq> Inl Undefined_behaviour"
    using assms wf_world_obj_at [of w this]
    by (auto simp: SmallFun_dtor_def balanced_def wf_SmallFun_def split: option.splits)
  assume ok: "SmallFun_dtor this w = Inr w'"
  show "balanced w'"
  proof (cases "obj_at w this")
    case None
    with ok show ?thesis by (simp add: SmallFun_dtor_def)
  next
    case (Some c)
    have wfc: "wf_SmallFun c" using assms Some by (auto simp: balanced_def dest: wf_world_obj_at)
    show ?thesis
    proof (cases "allocated c")
      case False
      with ok Some have w': "w' = w\<lparr>objects := (objects w)[this := None]\<rparr>"
        by (simp add: SmallFun_dtor_def)
      have "memory c = None" using wfc False by (simp add: wf_SmallFun_def split: option.splits)
      then have "live_adapters w' = live_adapters w"
        using live_adapters_remove [OF Some] by (simp add: w' holds_Some)
      moreover have "wf_world w'" using assms by (simp add: w' balanced_def wf_world_remove)
      ultimately show ?thesis using assms by (simp add: balanced_def w')
    next
      case True
      with ok Some obtain m where m: "memory c = Some m"
        and w': "w' = w\<lparr>objects := (objects w)[this := None], destructions := destructions w + 1\<rparr>"
        by (auto simp: SmallFun_dtor_def split: option.splits)
      have "wf_world w'"
        using assms wf_world_remove [of w this] by (simp add: w' balanced_def wf_world_def)
      moreover have "live_adapters w' + 1 = live_adapters w"
        using live_adapters_remove [OF Some] m by (simp add: w' holds_Some live_adapters_def)
      ultimately show ?thesis using assms by (simp add: balanced_def w')
    qed
  qed
qed

lemma SmallFun_default_balanced:
  assumes "balanced w"
  shows "balanced (snd (SmallFun_default n w))"
  using assms
  by (simp add: balanced_def SmallFun_default_def wf_world_new_obj live_adapters_new_obj
      wf_SmallFun_def holds_Some)
    (simp add: new_obj_def)

lemma SmallFun_from_balanced:
  assumes "balanced w" and "0 < sizeof_SFModel F" and "SmallFun_from n F w = Inr (c, w')"
  shows "balanced w'"
proof -
  let ?c = "\<lparr>size_SF = n, memory = Some (SFModel F), allocated = (sizeof_SFModel F \<noteq> 0)\<rparr>"
  let ?w = "w\<lparr>constructions := constructions w + 1\<rparr>"
  from assms(3) have le: "sizeof_SFModel F \<le> n" and w': "w' = snd (new_obj ?c ?w)"
    by (auto simp: SmallFun_from_def split: if_splits)
  have "wf_SmallFun ?c" using le assms(2) by (simp add: wf_SmallFun_def)
  then have "wf_world w'" using assms(1) by (simp add: w' balanced_def wf_world_new_obj)
  moreover have "live_adapters w' = live_adapters w + 1"
    by (simp add: w' live_adapters_new_obj holds_Some)
  moreover have "constructions w' = constructions w + 1" "destructions w' = destructions w"
    by (simp_all add: w' new_obj_def)
  ultimately show ?thesis using assms(1) by (simp add: balanced_def)
qed

lemma copy_ctor_template_balanced:
  assumes b: "balanced w"
  shows "copy_ctor_template n sf w \<noteq> Inl Undefined_behaviour"
    and "copy_ctor_template n sf w = Inr (c, w') \<Longrightarrow> balanced w'"
proof -
  have nub: "copy_ctor_template n sf w \<noteq> Inl Undefined_behaviour \<and>
             (copy_ctor_template n sf w = Inr (c, w') \<longrightarrow> balanced w')"
  proof (cases "obj_at w sf")
    case None
    then show ?thesis by (simp add: copy_ctor_template_def)
  next
    case (Some src)
    have wfs: "wf_SmallFun src" using b Some by (auto simp: balanced_def dest: wf_world_obj_at)
    show ?thesis
    proof (cases "size_SF src \<le> n")
      case False
      with Some show ?thesis by (simp add: copy_ctor_template_def)
    next
      case True
      let ?d = "\<lparr>size_SF = n, memory = memory src, allocated = allocated src\<rparr>"
      have wfd: "wf_SmallFun ?d"
        using wfs True by (auto simp: wf_SmallFun_def split: option.splits)
      have h: "holds (Some ?d) = holds (Some src)" by (simp add: holds_Some)
      have "balanced ((snd (new_obj ?d w))\<lparr>constructions := constructions w + holds (Some src)\<rparr>)"
        using b wfd h live_adapters_new_obj [of ?d w]
        by (simp add: balanced_def wf_world_new_obj) (simp add: new_obj_def)
      then show ?thesis using copy_ctor_template_result [OF Some wfs True] by auto
    qed
  qed
  from nub show "copy_ctor_template n sf w \<noteq> Inl Undefined_behaviour" by simp
  from nub show "copy_ctor_template n sf w = Inr (c, w') \<Longrightarrow> balanced w'" by simp
qed

lemma assign_template_balanced:
  assumes b: "balanced w"
  shows "assign_template this sf w \<noteq> Inl Undefined_behaviour"
    and "assign_template this sf w = Inr w' \<Longrightarrow> balanced w'"
proof -
  have nub: "assign_template this sf w \<noteq> Inl Undefined_behaviour \<and>
             (assign_template this sf w = Inr w' \<longrightarrow> balanced w')"
  proof (cases "obj_at w this")
    case None
    then show ?thesis by (simp add: assign_template_def)
  next
    case dst: (Some dst)
    have wfd: "wf_SmallFun dst" using b dst by (auto simp: balanced_def dest: wf_world_obj_at)
    show ?thesis
    proof (cases "obj_at w sf")
      case None
      with dst show ?thesis by (simp add: assign_template_def)
    next
      case src: (Some src)
      have wfs: "wf_SmallFun src" using b src by (auto simp: balanced_def dest: wf_world_obj_at)
      show ?thesis
      proof (cases "size_SF src \<le> size_SF dst")
        case False
        with dst src show ?thesis by (simp add: assign_template_def)
      next
        case fits: True
        show ?thesis
        proof (cases "this = sf")
          case True
          then show ?thesis
            using assign_template_self [OF dst wfd] clean_balanced(1) [OF b, of this]
              clean_balanced(2) [OF b, of this w'] by simp
        next
          case False
          let ?d = "dst\<lparr>memory := memory src, allocated := allocated src\<rparr>"
          let ?w' = "(put_obj this ?d w)\<lparr>constructions := constructions w + holds (Some src),
                   destructions := destructions w + holds (Some dst)\<rparr>"
          have wfd': "wf_SmallFun ?d"
            using wfs fits by (auto simp: wf_SmallFun_def split: option.splits)
          have h: "holds (Some ?d) = holds (Some src)" by (simp add: holds_Some)
          have "live_adapters ?w' + holds (Some dst) = live_adapters w + holds (Some src)"
            using live_adapters_put_obj [OF dst, of ?d] h by simp
          moreover have "wf_world ?w'" using b wfd' by (simp add: balanced_def wf_world_put_obj)
          moreover have "constructions ?w' = constructions w + holds (Some src)"
            "destructions ?w' = destructions w + holds (Some dst)"
            by (simp_all add: put_obj_def)
          ultimately have "balanced ?w'" using b by (simp add: balanced_def)
          then show ?thesis using assign_template_result [OF dst wfd src wfs False fits] by auto
        qed
      qed
    qed
  qed
  from nub show "assign_template this sf w \<noteq> Inl Undefined_behaviour" by simp
  from nub show "assign_template this sf w = Inr w' \<Longrightarrow> balanced w'" by simp
qed

lemma step_balanced:
  assumes b: "balanced w" and pos: "positive_sizes [a]"
  shows "step_templates a w \<noteq> Inl Undefined_behaviour \<and> (\<forall>w'. step_templates a w = Inr w' \<longrightarrow> balanced w')"
proof (cases a)
  case (Declare n)
  then show ?thesis using SmallFun_default_balanced [OF b] by simp
next
  case (Declare_from n F)
  then have sz: "0 < sizeof_SFModel F" using pos by simp
  show ?thesis
  proof (cases "SmallFun_from n F w")
    case (Inl e)
    then have "e = No_matching_overload" by (simp add: SmallFun_from_def split: if_splits)
    with Inl Declare_from show ?thesis by (simp add: and_then_def)
  next
    case (Inr cw)
    obtain c w1 where cw: "cw = (c, w1)" by (cases cw)
    have "balanced w1" using SmallFun_from_balanced [OF b sz] Inr cw by simp
    with Inr cw Declare_from show ?thesis by (simp add: and_then_def)
  qed
next
  case (Declare_copy n sf)
  then show ?thesis
    using copy_ctor_template_balanced [OF b, of n sf]
    by (auto simp: and_then_def split: sum.splits)
next
  case (Assign this sf)
  then show ?thesis using assign_template_balanced [OF b, of this sf] by simp
next
  case (Clean this)
  then show ?thesis using clean_balanced [OF b, of this] by simp
next
  case (Destroy this)
  then show ?thesis using SmallFun_dtor_balanced [OF b, of this] by simp
qed

lemma positive_sizes_Cons: "positive_sizes (a # as) = (positive_sizes [a] \<and> positive_sizes as)"
  by (cases a) simp_all

lemma run_balanced:
  "balanced w \<Longrightarrow> positive_sizes as \<Longrightarrow>
   run_templates as w \<noteq> Inl Undefined_behaviour \<and> (\<forall>w'. run_templates as w = Inr w' \<longrightarrow> balanced w')"
proof (induction as arbitrary: w)
  case Nil
  then show ?case by simp
next
  case (Cons a as)
  from Cons.prems(2) have pa: "positive_sizes [a]" and pas: "positive_sizes as"
    using positive_sizes_Cons [of a as] by simp_all
  note st = step_balanced [OF Cons.prems(1) pa]
  show ?case
  proof (cases "step_templates a w")
    case (Inl e)
    with st show ?thesis by (simp add: and_then_def)
  next
    case (Inr w1)
    with st have "balanced w1" by simp
    from Cons.IH [OF this pas] Inr show ?thesis by (simp add: and_then_def)
  qed
qed

lemma balanced_empty_world: "balanced empty_world"
  by (simp add: balanced_def wf_world_def empty_world_def live_adapters_def)

lemma all_destroyed_live_adapters: "all_destroyed w \<Longrightarrow> live_adapters w = 0"
proof -
  assume "all_destroyed w"
  then have "\<forall>e \<in> set (objects w). holds e = 0"
    by (auto simp: all_destroyed_def list_all_iff holds_def split: option.splits)
  then show ?thesis by (simp add: live_adapters_def)
qed

text \<open>
  With the member templates as the copy operations, a program never destroys an adapter
  that is not alive, the constructed held callables are the destroyed ones and the ones
  alive, and the two counts are equal once every container has been destroyed.
\<close>

lemma templates_single_destruction:
  assumes "positive_sizes as"
  shows "run_templates as empty_world \<noteq> Inl Undefined_behaviour \<and>
         (\<forall>w. run_templates as empty_world = Inr w \<longrightarrow>
            constructions w = destructions w + live_adapters w \<and>
            (all_destroyed w \<longrightarrow> constructions w = destructions w))"
  using run_balanced [OF balanced_empty_world assms] all_destroyed_live_adapters
  by (auto simp: balanced_def)

text \<open>The program of repeated assignment, with the templates as the copy operations.\<close>

lemma templates_example_balanced:
  "\<exists>w. run_templates [Declare 64,
             Declare_from 64 closure_3_100, Assign 0 1, Destroy 1,
             Declare_from 64 closure_7_1, Assign 0 2, Destroy 2,
             Destroy 0] empty_world = Inr w \<and>
       all_destroyed w \<and> constructions w = 4 \<and> destructions w = 4"
proof -
  let ?ops = "[Declare 64,
             Declare_from 64 closure_3_100, Assign 0 1, Destroy 1,
             Declare_from 64 closure_7_1, Assign 0 2, Destroy 2,
             Destroy 0]"
  have "case run_templates ?ops empty_world of Inl e \<Rightarrow> False
        | Inr w \<Rightarrow> all_destroyed w \<and> constructions w = 4 \<and> destructions w = 4"
    by code_simp
  then show ?thesis by (cases "run_templates ?ops empty_world") auto
qed

text \<open>
  Containers of equal capacity are copied member by member, so the copy holds an image
  of an adapter that no constructor made, and both containers destroy it.
\<close>

lemma copy_twice_unbalanced:
  "\<exists>w. run [Declare_from 64 closure_3_100, Declare_copy 64 0, Destroy 1, Destroy 0]
         empty_world = Inr w \<and>
       all_destroyed w \<and> constructions w = 1 \<and> destructions w = 2"
proof -
  let ?ops = "[Declare_from 64 closure_3_100, Declare_copy 64 0, Destroy 1, Destroy 0]"
  have "case run ?ops empty_world of Inl e \<Rightarrow> False
        | Inr w \<Rightarrow> all_destroyed w \<and> constructions w = 1 \<and> destructions w = 2"
    by code_simp
  then show ?thesis by (cases "run ?ops empty_world") auto
qed

text \<open>
  Claim C3 (single destruction) says that constructions and destructions of held
  callables are equal at the end of every sequence of operations. The program below
  declares a container of capacity 64, assigns a closure to it twice the way
  \<open>fs[i] = [i, N] (int j) { return i*j+N; }\<close> does (a temporary container is constructed
  from the closure, assigned, and destroyed), and destroys the container. Each
  assignment is between containers of equal capacity, so it copies \<open>memory\<close> and
  \<open>allocated\<close> and never runs \<open>clean\<close>: two held callables are constructed and three are
  destroyed.
\<close>

theorem repeated_assignment_unbalanced:
  "\<exists>w. run [Declare 64,
             Declare_from 64 closure_3_100, Assign 0 1, Destroy 1,
             Declare_from 64 closure_7_1, Assign 0 2, Destroy 2,
             Destroy 0] empty_world = Inr w \<and>
       all_destroyed w \<and> constructions w = 2 \<and> destructions w = 3"
proof -
  let ?ops = "[Declare 64,
             Declare_from 64 closure_3_100, Assign 0 1, Destroy 1,
             Declare_from 64 closure_7_1, Assign 0 2, Destroy 2,
             Destroy 0]"
  have "case run ?ops empty_world of Inl e \<Rightarrow> False
        | Inr w \<Rightarrow> all_destroyed w \<and> constructions w = 2 \<and> destructions w = 3"
    by code_simp
  then show ?thesis by (cases "run ?ops empty_world") auto
qed

section \<open>Every store that a program reaches is well formed\<close>

text \<open>
  The hypotheses \<open>wf_SmallFun\<close> of the theorems above hold for every container of every
  store that a program reaches from the empty store, with the copy operations as they
  are selected.
\<close>

lemma wf_world_empty: "wf_world empty_world"
  by (simp add: wf_world_def empty_world_def)

lemma wf_copy: "wf_SmallFun src \<Longrightarrow> size_SF src \<le> n \<Longrightarrow>
  wf_SmallFun \<lparr>size_SF = n, memory = memory src, allocated = allocated src\<rparr>"
  by (auto simp: wf_SmallFun_def split: option.splits)

lemma wf_copy_update: "wf_SmallFun src \<Longrightarrow> size_SF src \<le> size_SF dst \<Longrightarrow>
  wf_SmallFun (dst\<lparr>memory := memory src, allocated := allocated src\<rparr>)"
  by (auto simp: wf_SmallFun_def split: option.splits)

lemma clean_wf:
  assumes wf: "wf_world w" and ok: "clean this w = Inr w'"
  shows "wf_world w'"
proof (cases "obj_at w this")
  case None
  with ok show ?thesis by (simp add: clean_def)
next
  case (Some c)
  have "wf_SmallFun c" by (rule wf_world_obj_at [OF wf Some])
  from clean_result [OF Some this] ok
  have "w' = (put_obj this (c\<lparr>memory := None, allocated := False\<rparr>) w)
                \<lparr>destructions := destructions w + holds (Some c)\<rparr>" by simp
  then show ?thesis using wf by (simp add: wf_world_put_obj wf_SmallFun_def)
qed

lemma SmallFun_dtor_wf:
  assumes wf: "wf_world w" and ok: "SmallFun_dtor this w = Inr w'"
  shows "wf_world w'"
proof -
  from ok have "w' = w\<lparr>objects := (objects w)[this := None]\<rparr> \<or>
                w' = w\<lparr>objects := (objects w)[this := None], destructions := destructions w + 1\<rparr>"
    by (auto simp: SmallFun_dtor_def split: option.splits if_splits)
  then show ?thesis using wf_world_remove [OF wf, of this] by (auto simp: wf_world_def)
qed

lemma SmallFun_from_wf:
  assumes wf: "wf_world w" and pos: "0 < sizeof_SFModel F" and ok: "SmallFun_from n F w = Inr (c, w')"
  shows "wf_world w'"
proof -
  let ?c = "\<lparr>size_SF = n, memory = Some (SFModel F), allocated = (sizeof_SFModel F \<noteq> 0)\<rparr>"
  from ok have le: "sizeof_SFModel F \<le> n"
    and w': "w' = snd (new_obj ?c (w\<lparr>constructions := constructions w + 1\<rparr>))"
    by (auto simp: SmallFun_from_def split: if_splits)
  have "wf_SmallFun ?c" using le pos by (simp add: wf_SmallFun_def)
  then show ?thesis using wf by (simp add: w' wf_world_new_obj)
qed

lemma copy_construct_wf:
  assumes wf: "wf_world w" and ok: "copy_construct n sf w = Inr (c, w')"
  shows "wf_world w'"
proof -
  from copy_construct_InrD [OF ok] obtain src where src: "obj_at w sf = Some src"
    and eq: "size_SF src = n"
    and w': "w' = w\<lparr>objects := objects w @
                      [Some \<lparr>size_SF = n, memory = memory src, allocated = allocated src\<rparr>]\<rparr>"
    by blast
  have "wf_SmallFun src" by (rule wf_world_obj_at [OF wf src])
  then have "wf_SmallFun \<lparr>size_SF = n, memory = memory src, allocated = allocated src\<rparr>"
    using eq by (simp add: wf_copy)
  then show ?thesis using wf by (simp add: w' wf_world_def wf_entry_def)
qed

lemma copy_assign_wf:
  assumes wf: "wf_world w" and ok: "copy_assign this sf w = Inr w'"
  shows "wf_world w'"
proof -
  from copy_assign_InrD [OF ok] obtain dst src where dst: "obj_at w this = Some dst"
    and src: "obj_at w sf = Some src" and eq: "size_SF src = size_SF dst"
    and w': "w' = put_obj this (dst\<lparr>memory := memory src, allocated := allocated src\<rparr>) w"
    by blast
  have "wf_SmallFun src" by (rule wf_world_obj_at [OF wf src])
  then have "wf_SmallFun (dst\<lparr>memory := memory src, allocated := allocated src\<rparr>)"
    using eq by (simp add: wf_copy_update)
  then show ?thesis using wf by (simp add: w' wf_world_put_obj)
qed

lemma step_wf:
  assumes wf: "wf_world w" and pos: "positive_sizes [a]" and ok: "step a w = Inr w'"
  shows "wf_world w'"
proof (cases a)
  case (Declare n)
  then show ?thesis
    using ok wf by (auto simp: SmallFun_default_def wf_world_new_obj wf_SmallFun_def)
next
  case (Declare_from n F)
  then have sz: "0 < sizeof_SFModel F" using pos by simp
  from ok Declare_from obtain c where "SmallFun_from n F w = Inr (c, w')"
    by (auto simp: and_then_def split: sum.splits)
  then show ?thesis by (rule SmallFun_from_wf [OF wf sz])
next
  case (Declare_copy n sf)
  with ok obtain c where "copy_construct n sf w = Inr (c, w')"
    by (auto simp: and_then_def split: sum.splits)
  then show ?thesis by (rule copy_construct_wf [OF wf])
next
  case (Assign this sf)
  with ok show ?thesis using copy_assign_wf [OF wf] by simp
next
  case (Clean this)
  with ok show ?thesis using clean_wf [OF wf] by simp
next
  case (Destroy this)
  with ok show ?thesis using SmallFun_dtor_wf [OF wf] by simp
qed

lemma run_wf:
  "wf_world w \<Longrightarrow> positive_sizes as \<Longrightarrow> run as w = Inr w' \<Longrightarrow> wf_world w'"
proof (induction as arbitrary: w)
  case Nil
  then show ?case by simp
next
  case (Cons a as)
  from Cons.prems(2) have pa: "positive_sizes [a]" and pas: "positive_sizes as"
    using positive_sizes_Cons [of a as] by simp_all
  from Cons.prems(3) obtain w1 where s: "step a w = Inr w1" and r: "run as w1 = Inr w'"
    by (auto simp: and_then_def split: sum.splits)
  from step_wf [OF Cons.prems(1) pa s] have "wf_world w1" .
  from Cons.IH [OF this pas r] show ?case .
qed

lemma reachable_wf:
  "positive_sizes as \<Longrightarrow> run as empty_world = Inr w \<Longrightarrow> obj_at w p = Some c \<Longrightarrow> wf_SmallFun c"
  using run_wf [OF wf_world_empty] wf_world_obj_at by blast

section \<open>The alignment of the storage slot\<close>

lemma every_address_suits_the_class: "suitably_aligned alignof_SmallFun addr"
  by (simp add: suitably_aligned_def alignof_SmallFun_def)

text \<open>
  Wherever an array of containers starts, the slots of its first two elements are not
  both aligned for an adapter whose alignment is more than 1 and divides the capacity.
\<close>

lemma second_slot_misaligned:
  assumes al: "1 < al" and n: "al dvd n" and base: "suitably_aligned al base"
  shows "\<not> suitably_aligned al (memory_address base n 1)"
proof
  assume "suitably_aligned al (memory_address base n 1)"
  then have "al dvd (base + n) + 1"
    by (simp add: suitably_aligned_def memory_address_def sizeof_SmallFun_def mod_eq_0_iff_dvd)
  moreover from base n have "al dvd base + n"
    by (simp add: suitably_aligned_def mod_eq_0_iff_dvd)
  ultimately have "al dvd 1" by (simp only: dvd_add_right_iff)
  with al show False by simp
qed

text \<open>
  Claim C8 (alignment of the slot) says that the slot of every container is suitably
  aligned for every adapter that fits it. The class has alignment 1, so an array of
  containers may start at any address, and in an array of containers of capacity 64
  that starts at address 0 the slot of the second container is at address 65. An
  adapter holds a pointer to its table of virtual functions; where that pointer has
  alignment 8 the slot is not suitably aligned for any adapter.
\<close>

theorem slot_not_suitably_aligned:
  "suitably_aligned alignof_SmallFun 0 \<and> suitably_aligned 8 0 \<and>
   memory_address 0 64 1 = 65 \<and> \<not> suitably_aligned 8 (memory_address 0 64 1)"
  by (simp add: suitably_aligned_def memory_address_def sizeof_SmallFun_def alignof_SmallFun_def)

end
